theory Spec2Isabelle
  imports Main
begin

section \<open>Data model\<close>

text \<open>
  A shallow embedding of \<^verbatim>\<open>crypto/decryption_core.go\<close> and
  \<^verbatim>\<open>crypto/decryption_handle_builder.go\<close>.

  Byte slices are strings (lists of bytes); a nil slice or nil pointer is \<open>None\<close>.
  A value of Go's \<^verbatim>\<open>error\<close> interface is an \<open>error option\<close>, \<open>None\<close> being nil.
\<close>

type_synonym bytes = string

datatype error =
    EOF                     \<comment> \<open>\<^verbatim>\<open>io.EOF\<close>\<close>
  | LibError string         \<comment> \<open>an error produced by a collaborator outside these files\<close>
  | ErrNew string           \<comment> \<open>\<^verbatim>\<open>errors.New(message)\<close>\<close>
  | ErrWrap error string    \<comment> \<open>\<^verbatim>\<open>errors.Wrap(err, message)\<close> for a non-nil \<^verbatim>\<open>err\<close>\<close>
  | Panic string            \<comment> \<open>a run-time panic; never a returned error value\<close>

text \<open>\<^verbatim>\<open>errors.Wrap\<close> of \<^verbatim>\<open>github.com/pkg/errors\<close> returns nil when it is given nil.\<close>

definition errors_Wrap :: "error option \<Rightarrow> string \<Rightarrow> error option" where
  "errors_Wrap e message = (case e of None \<Rightarrow> None | Some e \<Rightarrow> Some (ErrWrap e message))"

text \<open>
  A \<^verbatim>\<open>Clock\<close> is represented by the unix time that \<^verbatim>\<open>clock().Unix()\<close> reports;
  it is taken to be constant while one operation runs.
\<close>

type_synonym Clock = int

definition NewConstantClock :: "int \<Rightarrow> Clock" where
  "NewConstantClock unixTime = unixTime"

type_synonym Entity = nat
type_synonym Key = nat
type_synonym CipherFunction = nat
type_synonym SignatureType = nat

definition SigTypeBinary :: SignatureType where
  "SigTypeBinary = 0"

definition SigTypeText :: SignatureType where
  "SigTypeText = 1"

record KeyRing =
  entities :: "Entity list"

record VerificationContext =
  name :: string
  required :: bool

record SessionKey =
  Key :: bytes
  Algo :: string
  v6 :: bool

text \<open>
  The packets that \<^verbatim>\<open>packets.Next()\<close> can return, as far as the type switch of
  \<^verbatim>\<open>decryptStreamWithSessionKey\<close> tells them apart. The two encrypted-data packet
  types both implement \<^verbatim>\<open>packet.EncryptedDataPacket\<close>. \<open>OtherPacket tag body\<close> is
  a packet of any other type.
\<close>

datatype packet =
    EncryptedKey bytes
  | SymmetricKeyEncrypted bytes
  | SymmetricallyEncrypted bytes
  | AEADEncrypted bytes
  | OtherPacket nat bytes

text \<open>
  An \<^verbatim>\<open>io.Reader\<close> over an OpenPGP message is the list of packets it has yet to
  deliver: it is forward-only, and each \<^verbatim>\<open>packet.NewReader(r).Next()\<close> takes the
  first packet off it (\<^verbatim>\<open>io.EOF\<close> when nothing is left). For an encrypted-data
  packet Go leaves the reader inside the packet's body, from where no later
  \<^verbatim>\<open>Next()\<close> can return that packet again; the model takes the whole packet off.
  A reader over plaintext is one of the decorators below.
\<close>

datatype Reader =
    BodyReader bytes                     \<comment> \<open>the literal body produced by the message parser\<close>
  | checkReader "packet list" Reader     \<comment> \<open>\<^verbatim>\<open>checkReader{decrypted, body}\<close>\<close>
  | SanitizeReader Reader                \<comment> \<open>\<^verbatim>\<open>internal.NewSanitizeReader(r)\<close>\<close>

record LiteralData =
  IsBinary :: bool
  FileName :: string
  Time :: nat

record SignatureCandidate =
  SigType :: SignatureType

record MessageDetails =
  IsSigned :: bool
  SignatureCandidates :: "SignatureCandidate list"
  UnverifiedBody :: Reader
  LiteralData :: "LiteralData option"
  SessionKey :: "bytes option"

record Config =
  CacheSessionKey :: bool
  CheckIntendedRecipients :: "bool option"
  Time :: "Clock option"
  KnownNotations :: "string \<rightharpoonup> bool"
  CheckPacketSequence :: "bool option"

text \<open>The zero value \<^verbatim>\<open>packet.Config{}\<close>.\<close>

definition emptyConfig :: Config where
  "emptyConfig = \<lparr>CacheSessionKey = False, CheckIntendedRecipients = None,
     Config.Time = None, KnownNotations = Map.empty, CheckPacketSequence = None\<rparr>"

record VerifyDataReader =
  details :: MessageDetails
  internalReader :: Reader
  verifyKeyRing :: "KeyRing option"
  verifyTime :: int
  disableTimeCheck :: bool
  readAll :: bool
  verificationContext :: "VerificationContext option"

text \<open>
  The fields of \<^verbatim>\<open>decryptionHandle\<close> that the two files use. The builder's
  \<^verbatim>\<open>SessionKey\<close> method writes the field \<^verbatim>\<open>SessionKey\<close>; the decryption core reads the
  list \<^verbatim>\<open>SessionKeys\<close>.
\<close>

record decryptionHandle =
  DecryptionKeyRing :: "KeyRing option"
  SessionKeys :: "SessionKey list"
  SessionKey :: "SessionKey option"
  Password :: "bytes option"
  VerifyKeyRing :: "KeyRing option"
  VerificationContext :: "VerificationContext option"
  DisableIntendedRecipients :: bool
  DisableVerifyTimeCheck :: bool
  RetrieveSessionKey :: bool
  clock :: Clock

record DecryptionHandleBuilder =
  handle :: decryptionHandle
  defaultClock :: Clock
  err :: "error option"

subsection \<open>The one-shot password prompt\<close>

text \<open>
  The closure returned by \<^verbatim>\<open>createPasswordPrompt\<close> captures \<^verbatim>\<open>password\<close> and the
  mutable \<^verbatim>\<open>firstTimeCalled\<close>. The closure is its captured state; calling it returns
  the answer and the closure as the call left it.
\<close>

record PasswordPrompt =
  password :: bytes
  firstTimeCalled :: bool

definition createPasswordPrompt :: "bytes option \<Rightarrow> PasswordPrompt option" where
  "createPasswordPrompt pw =
     (case pw of
        None \<Rightarrow> None
      | Some p \<Rightarrow> Some \<lparr>password = p, firstTimeCalled = True\<rparr>)"

definition promptCall :: "PasswordPrompt \<Rightarrow> Key list \<Rightarrow> bool \<Rightarrow> (error + bytes) \<times> PasswordPrompt" where
  "promptCall prompt keys symmetric =
     (if firstTimeCalled prompt
      then (Inr (password prompt), prompt\<lparr>firstTimeCalled := False\<rparr>)
      else (Inl (ErrNew ''gopenpgp: wrong password in symmetric decryption''), prompt))"

text \<open>The answers of successive invocations of one prompt, one per argument pair.\<close>

fun promptCalls :: "PasswordPrompt \<Rightarrow> (Key list \<times> bool) list \<Rightarrow> (error + bytes) list" where
  "promptCalls prompt [] = []"
| "promptCalls prompt ((keys, symmetric) # rest) =
     (case promptCall prompt keys symmetric of
        (answer, prompt') \<Rightarrow> answer # promptCalls prompt' rest)"

subsection \<open>Collaborators\<close>

text \<open>
  Functions that these files call and do not define: the packet codec and message parser
  of go-crypto, and the helpers of this package that live in other files. They are
  parameters of the model.

  \<^item> \<open>ReadMessage\<close> is \<^verbatim>\<open>openpgp.ReadMessage(r, keyring, prompt, config)\<close>; it may invoke
    the prompt, so it also returns the prompt as its invocations left it.
  \<^item> \<open>Decrypt p dc key\<close> is \<^verbatim>\<open>p.Decrypt(dc, key)\<close> on an encrypted-data packet; the
    reader it returns delivers the packets of the decrypted payload.
  \<^item> \<open>AddKey\<close> mutates the key ring it is called on: it returns the ring after the call.
\<close>

record collaborators =
  GetCipherFunc :: "SessionKey \<Rightarrow> error + CipherFunction"
  Decrypt :: "packet \<Rightarrow> CipherFunction \<Rightarrow> bytes \<Rightarrow> error + packet list"
  ReadMessage :: "packet list \<Rightarrow> Entity list \<Rightarrow> PasswordPrompt option \<Rightarrow> Config
                    \<Rightarrow> (error + MessageDetails) \<times> PasswordPrompt option"
  verifyingDetachedReader :: "Reader \<Rightarrow> Reader \<Rightarrow> KeyRing option \<Rightarrow> VerificationContext option
                    \<Rightarrow> bool \<Rightarrow> Config \<Rightarrow> Clock \<Rightarrow> error + VerifyDataReader"
  SignatureContextName :: string
  NewKeyRing :: "Key option \<Rightarrow> KeyRing option \<times> error option"
  AddKey :: "KeyRing \<Rightarrow> Key option \<Rightarrow> KeyRing \<times> error option"
  validate :: "decryptionHandle \<Rightarrow> error option"
  defaultDecryptionHandle :: "Clock \<Rightarrow> decryptionHandle"

section \<open>decryption\_core.go\<close>

subsection \<open>decryptStreamWithSessionKey\<close>

text \<open>
  The \<^verbatim>\<open>for\<close> loop reads one packet per round from \<^verbatim>\<open>messageReader\<close>. The result
  is what the function returns and the reader as the call left it: the caller hands the
  same reader to the next candidate. \<open>decryptDataPacket\<close> is the body of the case of the
  two encrypted-data packet types; its branch \<^verbatim>\<open>!isDataPacket\<close> is dead, both types
  being encrypted-data packets.
\<close>

definition decryptDataPacket :: "collaborators \<Rightarrow> SessionKey \<Rightarrow> packet \<Rightarrow> error + packet list" where
  "decryptDataPacket x sessionKey p =
     (case (if \<not> v6 sessionKey then GetCipherFunc x sessionKey else Inr 0) of
        Inl e \<Rightarrow> Inl (ErrWrap e ''gopenpgp: unable to decrypt with session key'')
      | Inr dc \<Rightarrow>
          (case Decrypt x p dc (Key sessionKey) of
             Inl e \<Rightarrow> Inl (ErrWrap e ''gopenpgp: unable to decrypt symmetric packet'')
           | Inr decrypted \<Rightarrow> Inr decrypted))"

fun decryptStreamWithSessionKey ::
  "collaborators \<Rightarrow> SessionKey \<Rightarrow> packet list \<Rightarrow> (error + packet list) \<times> packet list" where
  "decryptStreamWithSessionKey x sessionKey [] =
     (Inl (ErrWrap EOF ''gopenpgp: unable to read symmetric packet''), [])"
| "decryptStreamWithSessionKey x sessionKey (p # messageReader) =
     (case p of
        EncryptedKey _ \<Rightarrow> decryptStreamWithSessionKey x sessionKey messageReader
      | SymmetricKeyEncrypted _ \<Rightarrow> decryptStreamWithSessionKey x sessionKey messageReader
      | SymmetricallyEncrypted _ \<Rightarrow> (decryptDataPacket x sessionKey p, messageReader)
      | AEADEncrypted _ \<Rightarrow> (decryptDataPacket x sessionKey p, messageReader)
      | OtherPacket _ _ \<Rightarrow> (Inl (ErrNew ''gopenpgp: invalid packet type''), messageReader))"

subsection \<open>decryptStreamWithSessionAndParse\<close>

text \<open>
  The loop over \<^verbatim>\<open>dh.SessionKeys\<close>: \<open>lastErr\<close> is the function's \<^verbatim>\<open>err\<close> variable, the
  result is the selected candidate with its decrypted reader (if any) and the last error.
\<close>

fun sessionKeyCandidates ::
  "collaborators \<Rightarrow> SessionKey list \<Rightarrow> packet list \<Rightarrow> error option
     \<Rightarrow> (packet list \<times> SessionKey) option \<times> error option" where
  "sessionKeyCandidates x [] messageReader lastErr = (None, lastErr)"
| "sessionKeyCandidates x (sessionKeyCandidate # rest) messageReader lastErr =
     (case decryptStreamWithSessionKey x sessionKeyCandidate messageReader of
        (Inr decrypted, _) \<Rightarrow> (Some (decrypted, sessionKeyCandidate), None)
      | (Inl e, messageReader') \<Rightarrow> sessionKeyCandidates x rest messageReader' (Some e))"

text \<open>The key ring and configuration of the second parse.\<close>

definition sessionParseKeyring :: "decryptionHandle \<Rightarrow> Entity list" where
  "sessionParseKeyring dh =
     (case VerifyKeyRing dh of None \<Rightarrow> [] | Some vkr \<Rightarrow> entities vkr) @
     (case DecryptionKeyRing dh of None \<Rightarrow> [] | Some dkr \<Rightarrow> entities dkr)"

definition sessionParseConfig :: "collaborators \<Rightarrow> decryptionHandle \<Rightarrow> Config" where
  "sessionParseConfig x dh =
     (let config = emptyConfig\<lparr>Config.Time := Some (NewConstantClock (clock dh))\<rparr>;
          config = (if VerificationContext dh \<noteq> None
                    then config\<lparr>KnownNotations := [SignatureContextName x \<mapsto> True]\<rparr>
                    else config)
      in config\<lparr>CheckIntendedRecipients := Some (\<not> DisableIntendedRecipients dh),
                CheckPacketSequence := Some False\<rparr>)"

text \<open>
  The result is Go's triple: the pointer to the message details, the verification time
  and the error.
\<close>

definition decryptStreamWithSessionAndParse ::
  "collaborators \<Rightarrow> decryptionHandle \<Rightarrow> packet list \<Rightarrow> MessageDetails option \<times> int \<times> error option" where
  "decryptStreamWithSessionAndParse x dh messageReader =
     (case sessionKeyCandidates x (SessionKeys dh) messageReader None of
        (None, lastErr) \<Rightarrow>
          (None, 0, errors_Wrap lastErr ''gopenpgp: unable to decrypt message with session key'')
      | (Some (decrypted, selectedSessionKey), _) \<Rightarrow>
          (case fst (ReadMessage x decrypted (sessionParseKeyring dh) None (sessionParseConfig x dh)) of
             Inl e \<Rightarrow> (None, 0, Some (ErrWrap e ''gopenpgp: unable to decode symmetric packet''))
           | Inr md \<Rightarrow>
               (Some (md\<lparr>MessageDetails.SessionKey := Some (Key selectedSessionKey),
                         UnverifiedBody := checkReader decrypted (UnverifiedBody md)\<rparr>),
                NewConstantClock (clock dh), None)))"

subsection \<open>decryptStream and decryptStreamWithSession\<close>

text \<open>
  The block "Add utf8 sanitizer if signature has type packet.SigTypeText", which both
  functions contain: the reader handed to the caller.
\<close>

definition addSanitizer :: "MessageDetails \<Rightarrow> Reader" where
  "addSanitizer messageDetails =
     (if IsSigned messageDetails \<and>
         length (SignatureCandidates messageDetails) > 0 \<and>
         SigType (last (SignatureCandidates messageDetails)) = SigTypeText
      then SanitizeReader (UnverifiedBody messageDetails)
      else UnverifiedBody messageDetails)"

text \<open>The entity list and the configuration that \<^verbatim>\<open>decryptStream\<close> builds first.\<close>

definition decryptStreamEntries :: "decryptionHandle \<Rightarrow> Entity list" where
  "decryptStreamEntries dh =
     (case DecryptionKeyRing dh of None \<Rightarrow> [] | Some dkr \<Rightarrow> entities dkr) @
     (case VerifyKeyRing dh of None \<Rightarrow> [] | Some vkr \<Rightarrow> entities vkr)"

definition decryptStreamConfig :: "collaborators \<Rightarrow> decryptionHandle \<Rightarrow> Config" where
  "decryptStreamConfig x dh =
     (let config = emptyConfig\<lparr>CacheSessionKey := RetrieveSessionKey dh\<rparr>;
          config = (if DecryptionKeyRing dh \<noteq> None
                    then config\<lparr>CheckIntendedRecipients := Some (\<not> DisableIntendedRecipients dh)\<rparr>
                    else config);
          config = config\<lparr>Config.Time := Some (NewConstantClock (clock dh))\<rparr>
      in if VerificationContext dh \<noteq> None
         then config\<lparr>KnownNotations := [SignatureContextName x \<mapsto> True]\<rparr>
         else config)"

definition decryptStream ::
  "collaborators \<Rightarrow> decryptionHandle \<Rightarrow> packet list \<Rightarrow> error + VerifyDataReader" where
  "decryptStream x dh encryptedMessage =
     (let entries = decryptStreamEntries dh;
          config = decryptStreamConfig x dh;
          read =
            (if DecryptionKeyRing dh \<noteq> None
             then (case fst (ReadMessage x encryptedMessage entries None config) of
                     Inl e \<Rightarrow>
                       Inl (ErrWrap e ''gopenpgp: decrypting message with private keys failed'')
                   | Inr messageDetails \<Rightarrow> Inr messageDetails)
             else (let prompt = createPasswordPrompt (Password dh)
                   in case fst (ReadMessage x encryptedMessage entries prompt config) of
                        Inl e \<Rightarrow>
                          Inl (ErrNew ''gopenpgp: error in reading password protected message: wrong password or malformed message'')
                      | Inr messageDetails \<Rightarrow> Inr messageDetails))
      in case read of
           Inl e \<Rightarrow> Inl e
         | Inr messageDetails \<Rightarrow>
             Inr \<lparr>details = messageDetails,
                  internalReader = addSanitizer messageDetails,
                  verifyKeyRing = VerifyKeyRing dh,
                  verifyTime = NewConstantClock (clock dh),
                  disableTimeCheck = DisableVerifyTimeCheck dh,
                  readAll = False,
                  verificationContext = VerificationContext dh\<rparr>)"

text \<open>
  With no candidate at all \<^verbatim>\<open>decryptStreamWithSessionAndParse\<close> returns nil for both the
  message details and the error; reading \<^verbatim>\<open>messageDetails.UnverifiedBody\<close> then panics.
\<close>

definition decryptStreamWithSession ::
  "collaborators \<Rightarrow> decryptionHandle \<Rightarrow> packet list \<Rightarrow> error + VerifyDataReader" where
  "decryptStreamWithSession x dh dataPacketReader =
     (case decryptStreamWithSessionAndParse x dh dataPacketReader of
        (_, _, Some e) \<Rightarrow> Inl (ErrWrap e ''gopenpgp: error in reading message'')
      | (None, _, None) \<Rightarrow> Inl (Panic ''nil pointer dereference'')
      | (Some messageDetails, time, None) \<Rightarrow>
          Inr \<lparr>details = messageDetails,
               internalReader = addSanitizer messageDetails,
               verifyKeyRing = VerifyKeyRing dh,
               verifyTime = time,
               disableTimeCheck = DisableVerifyTimeCheck dh,
               readAll = False,
               verificationContext = VerificationContext dh\<rparr>)"

subsection \<open>decryptStreamAndVerifyDetached\<close>

text \<open>
  The block "Decrypt both messages": the message details of the data stream and the
  reader over the decrypted signature stream.
\<close>

definition detachedEntries :: "decryptionHandle \<Rightarrow> Entity list" where
  "detachedEntries dh = (case DecryptionKeyRing dh of None \<Rightarrow> [] | Some dkr \<Rightarrow> entities dkr)"

definition detachedConfig :: "decryptionHandle \<Rightarrow> Config" where
  "detachedConfig dh =
     emptyConfig\<lparr>CacheSessionKey := RetrieveSessionKey dh,
                 Config.Time := Some (NewConstantClock (clock dh))\<rparr>"

definition decryptBothMessages ::
  "collaborators \<Rightarrow> decryptionHandle \<Rightarrow> packet list \<Rightarrow> packet list
     \<Rightarrow> error + (MessageDetails \<times> Reader)" where
  "decryptBothMessages x dh encryptedData encryptedSignature =
     (if length (SessionKeys dh) > 0
      then
        (case decryptStreamWithSessionAndParse x dh encryptedData of
           (_, _, Some e) \<Rightarrow> Inl (ErrWrap e ''gopenpgp: error in reading data message'')
         | (mdData, _, None) \<Rightarrow>
             (case decryptStreamWithSessionAndParse x dh encryptedSignature of
                (_, _, Some e) \<Rightarrow>
                  Inl (ErrWrap e ''gopenpgp: error in reading detached signature message'')
              | (None, _, None) \<Rightarrow> Inl (Panic ''nil pointer dereference'')
              | (Some mdSig, _, None) \<Rightarrow>
                  (case mdData of
                     None \<Rightarrow> Inl (Panic ''nil pointer dereference'')
                   | Some mdData \<Rightarrow> Inr (mdData, UnverifiedBody mdSig))))
      else
        (let config = detachedConfig dh;
             entries = detachedEntries dh;
             prompt = createPasswordPrompt (Password dh)
         in case fst (ReadMessage x encryptedData entries prompt config) of
              Inl e \<Rightarrow> Inl (ErrWrap e ''gopenpgp: error in reading data message'')
            | Inr mdData \<Rightarrow>
                (let prompt = createPasswordPrompt (Password dh);
                     config = config\<lparr>CheckPacketSequence := Some False\<rparr>
                 in case fst (ReadMessage x encryptedSignature entries prompt config) of
                      Inl e \<Rightarrow>
                        Inl (ErrWrap e ''gopenpgp: error in reading detached signature message'')
                    | Inr mdSig \<Rightarrow> Inr (mdData, UnverifiedBody mdSig))))"

definition decryptStreamAndVerifyDetached ::
  "collaborators \<Rightarrow> decryptionHandle \<Rightarrow> packet list \<Rightarrow> packet list \<Rightarrow> error + VerifyDataReader" where
  "decryptStreamAndVerifyDetached x dh encryptedData encryptedSignature =
     (case decryptBothMessages x dh encryptedData encryptedSignature of
        Inl e \<Rightarrow> Inl e
      | Inr (mdData, signature) \<Rightarrow>
          (let config = emptyConfig\<lparr>CheckIntendedRecipients := Some (\<not> DisableIntendedRecipients dh)\<rparr>
           in case verifyingDetachedReader x (UnverifiedBody mdData) signature (VerifyKeyRing dh)
                     (VerificationContext dh) (DisableVerifyTimeCheck dh) config
                     (NewConstantClock (clock dh)) of
                Inl e \<Rightarrow> Inl e
              | Inr sigVerifyReader \<Rightarrow>
                  Inr (sigVerifyReader\<lparr>details := (details sigVerifyReader)
                         \<lparr>LiteralData := LiteralData mdData,
                          MessageDetails.SessionKey := MessageDetails.SessionKey mdData\<rparr>\<rparr>)))"

section \<open>decryption\_handle\_builder.go\<close>

definition newDecryptionHandleBuilder :: "collaborators \<Rightarrow> Clock \<Rightarrow> DecryptionHandleBuilder" where
  "newDecryptionHandleBuilder x c =
     \<lparr>handle = defaultDecryptionHandle x c, defaultClock = c, err = None\<rparr>"

definition DecryptionKeys :: "KeyRing option \<Rightarrow> DecryptionHandleBuilder \<Rightarrow> DecryptionHandleBuilder" where
  "DecryptionKeys decryptionKeyRing dpb =
     dpb\<lparr>handle := (handle dpb)\<lparr>DecryptionKeyRing := decryptionKeyRing\<rparr>\<rparr>"

definition DecryptionKey ::
  "collaborators \<Rightarrow> Key option \<Rightarrow> DecryptionHandleBuilder \<Rightarrow> DecryptionHandleBuilder" where
  "DecryptionKey x decryptionKey dpb =
     (case DecryptionKeyRing (handle dpb) of
        None \<Rightarrow>
          (case NewKeyRing x decryptionKey of
             (ring, e) \<Rightarrow> dpb\<lparr>handle := (handle dpb)\<lparr>DecryptionKeyRing := ring\<rparr>, err := e\<rparr>)
      | Some ring \<Rightarrow>
          (case AddKey x ring decryptionKey of
             (ring', e) \<Rightarrow>
               dpb\<lparr>handle := (handle dpb)\<lparr>DecryptionKeyRing := Some ring'\<rparr>, err := e\<rparr>))"

definition SessionKey_setter :: "SessionKey option \<Rightarrow> DecryptionHandleBuilder \<Rightarrow> DecryptionHandleBuilder" where
  "SessionKey_setter sessionKey dpb =
     dpb\<lparr>handle := (handle dpb)\<lparr>decryptionHandle.SessionKey := sessionKey\<rparr>\<rparr>"

definition Password_setter :: "bytes option \<Rightarrow> DecryptionHandleBuilder \<Rightarrow> DecryptionHandleBuilder" where
  "Password_setter pw dpb = dpb\<lparr>handle := (handle dpb)\<lparr>Password := pw\<rparr>\<rparr>"

definition VerifyKeys :: "KeyRing option \<Rightarrow> DecryptionHandleBuilder \<Rightarrow> DecryptionHandleBuilder" where
  "VerifyKeys verifyKeys dpb = dpb\<lparr>handle := (handle dpb)\<lparr>VerifyKeyRing := verifyKeys\<rparr>\<rparr>"

definition VerifyKey ::
  "collaborators \<Rightarrow> Key option \<Rightarrow> DecryptionHandleBuilder \<Rightarrow> DecryptionHandleBuilder" where
  "VerifyKey x key dpb =
     (case VerifyKeyRing (handle dpb) of
        None \<Rightarrow>
          (case NewKeyRing x key of
             (ring, e) \<Rightarrow> dpb\<lparr>handle := (handle dpb)\<lparr>VerifyKeyRing := ring\<rparr>, err := e\<rparr>)
      | Some ring \<Rightarrow>
          (case AddKey x ring key of
             (ring', e) \<Rightarrow>
               dpb\<lparr>handle := (handle dpb)\<lparr>VerifyKeyRing := Some ring'\<rparr>, err := e\<rparr>))"

definition VerificationContext_setter ::
  "VerificationContext option \<Rightarrow> DecryptionHandleBuilder \<Rightarrow> DecryptionHandleBuilder" where
  "VerificationContext_setter verifyContext dpb =
     dpb\<lparr>handle := (handle dpb)\<lparr>VerificationContext := verifyContext\<rparr>\<rparr>"

definition VerifyTime :: "int \<Rightarrow> DecryptionHandleBuilder \<Rightarrow> DecryptionHandleBuilder" where
  "VerifyTime unixTime dpb = dpb\<lparr>handle := (handle dpb)\<lparr>clock := NewConstantClock unixTime\<rparr>\<rparr>"

definition DisableVerifyTimeCheck_setter :: "DecryptionHandleBuilder \<Rightarrow> DecryptionHandleBuilder" where
  "DisableVerifyTimeCheck_setter dpb = dpb\<lparr>handle := (handle dpb)\<lparr>DisableVerifyTimeCheck := True\<rparr>\<rparr>"

definition DisableIntendedRecipients_setter :: "DecryptionHandleBuilder \<Rightarrow> DecryptionHandleBuilder" where
  "DisableIntendedRecipients_setter dpb =
     dpb\<lparr>handle := (handle dpb)\<lparr>DisableIntendedRecipients := True\<rparr>\<rparr>"

definition RetrieveSessionKey_setter :: "DecryptionHandleBuilder \<Rightarrow> DecryptionHandleBuilder" where
  "RetrieveSessionKey_setter dpb = dpb\<lparr>handle := (handle dpb)\<lparr>RetrieveSessionKey := True\<rparr>\<rparr>"

text \<open>\<^verbatim>\<open>New\<close> returns the handle or the error, and the builder as the call left it.\<close>

definition New ::
  "collaborators \<Rightarrow> DecryptionHandleBuilder \<Rightarrow> (error + decryptionHandle) \<times> DecryptionHandleBuilder" where
  "New x dpb =
     (case err dpb of
        Some e \<Rightarrow> (Inl e, dpb)
      | None \<Rightarrow>
          (let dpb = dpb\<lparr>err := validate x (handle dpb)\<rparr>
           in case err dpb of
                Some e \<Rightarrow> (Inl e, dpb)
              | None \<Rightarrow>
                  (Inr (handle dpb),
                   dpb\<lparr>handle := defaultDecryptionHandle x (defaultClock dpb)\<rparr>)))"

definition Error :: "DecryptionHandleBuilder \<Rightarrow> error option" where
  "Error dpb = err dpb"

section \<open>What a caller reads\<close>

definition CR :: char where
  "CR = CHR 0x0D"

definition LF :: char where
  "LF = CHR 0x0A"

text \<open>
  Modelled from the spec: the canonicalizing filter behind \<^verbatim>\<open>internal.NewSanitizeReader\<close>,
  whose code is not in these files. The spec says that it normalizes line endings whether
  the body used CR, LF or CRLF; here each of the three becomes one LF.
\<close>

fun canonicalize :: "bytes \<Rightarrow> bytes" where
  "canonicalize [] = []"
| "canonicalize [c] = (if c = CR then [LF] else [c])"
| "canonicalize (c # d # rest) =
     (if c = CR \<and> d = LF then LF # canonicalize rest
      else if c = CR then LF # canonicalize (d # rest)
      else c # canonicalize (d # rest))"

text \<open>
  Modelled from the spec: the byte sequence a caller reads from a reader. The code of
  \<^verbatim>\<open>checkReader\<close> and of the sanitizer is not in these files: a \<^verbatim>\<open>checkReader\<close> passes its
  body through (the integrity error it may raise at the end of the data is left out), the
  sanitizer delivers the canonical form of what it reads.
\<close>

fun delivered :: "Reader \<Rightarrow> bytes" where
  "delivered (BodyReader b) = b"
| "delivered (checkReader decrypted body) = delivered body"
| "delivered (SanitizeReader r) = canonicalize (delivered r)"

text \<open>
  A text whose lines each end with the line ending \<open>sep\<close>, and a line that holds
  neither CR nor LF.
\<close>

definition terminated :: "bytes \<Rightarrow> bytes list \<Rightarrow> bytes" where
  "terminated sep ls = concat (map (\<lambda>l. l @ sep) ls)"

definition plainLine :: "bytes \<Rightarrow> bool" where
  "plainLine l = (CR \<notin> set l \<and> LF \<notin> set l)"

text \<open>The condition under which the code adds the sanitizer.\<close>

definition lastCandidateIsText :: "MessageDetails \<Rightarrow> bool" where
  "lastCandidateIsText md =
     (IsSigned md \<and> SignatureCandidates md \<noteq> [] \<and>
      SigType (last (SignatureCandidates md)) = SigTypeText)"

text \<open>The key-exchange packets, which the session-key path skips.\<close>

definition isKeyPacket :: "packet \<Rightarrow> bool" where
  "isKeyPacket p = (case p of EncryptedKey _ \<Rightarrow> True | SymmetricKeyEncrypted _ \<Rightarrow> True | _ \<Rightarrow> False)"

section \<open>Sample collaborators\<close>

text \<open>
  Small stand-ins for the collaborators, on which the model runs on concrete inputs.
  A data packet's first byte names the key that opens it and the rest is the literal
  body; a symmetric key packet holds the passphrase that unlocks it; the parser accepts a
  bare literal packet (tag 11) only when the packet-sequence check is switched off. The
  modification time of a sample message is the length of its body; the detached verifier
  starts from details that name the signature's bytes as the file name.
\<close>

definition sampleDetails :: "bytes \<Rightarrow> MessageDetails" where
  "sampleDetails body =
     \<lparr>IsSigned = False, SignatureCandidates = [], UnverifiedBody = BodyReader body,
      LiteralData = Some \<lparr>IsBinary = True, FileName = ''filename.txt'',
                          LiteralData.Time = length body\<rparr>,
      MessageDetails.SessionKey = None\<rparr>"

definition sampleGetCipherFunc :: "SessionKey \<Rightarrow> error + CipherFunction" where
  "sampleGetCipherFunc sk =
     (if Algo sk = ''aes256'' then Inr 9 else Inl (LibError ''unsupported cipher''))"

definition sampleDecrypt :: "packet \<Rightarrow> CipherFunction \<Rightarrow> bytes \<Rightarrow> error + packet list" where
  "sampleDecrypt p dc k =
     (case p of
        SymmetricallyEncrypted c \<Rightarrow>
          (if take 1 c = k then Inr [OtherPacket 11 (drop 1 c)]
           else Inl (LibError ''integrity check failed''))
      | AEADEncrypted c \<Rightarrow>
          (if take 1 c = k then Inr [OtherPacket 11 (drop 1 c)]
           else Inl (LibError ''integrity check failed''))
      | _ \<Rightarrow> Inl (LibError ''not an encrypted data packet''))"

text \<open>
  Unlocking a symmetric key packet asks the prompt, and asks it again when the answer
  does not fit.
\<close>

definition sampleUnlock :: "bytes \<Rightarrow> PasswordPrompt \<Rightarrow> (error + bytes) \<times> PasswordPrompt" where
  "sampleUnlock secret prompt =
     (case promptCall prompt [] True of
        (Inl e, prompt1) \<Rightarrow> (Inl e, prompt1)
      | (Inr answer, prompt1) \<Rightarrow>
          (if answer = secret then (Inr answer, prompt1)
           else (case promptCall prompt1 [] True of
                   (Inl e, prompt2) \<Rightarrow> (Inl e, prompt2)
                 | (Inr answer2, prompt2) \<Rightarrow>
                     (if answer2 = secret then (Inr answer2, prompt2)
                      else (Inl (LibError ''too many attempts''), prompt2)))))"

definition sampleReadMessage ::
  "packet list \<Rightarrow> Entity list \<Rightarrow> PasswordPrompt option \<Rightarrow> Config
     \<Rightarrow> (error + MessageDetails) \<times> PasswordPrompt option" where
  "sampleReadMessage r entries prompt config =
     (case r of
        [OtherPacket t body] \<Rightarrow>
          (if t = 11 \<and> CheckPacketSequence config = Some False
           then (Inr (sampleDetails body), prompt)
           else (Inl (LibError ''unexpected packet''), prompt))
      | [EncryptedKey _, SymmetricallyEncrypted c] \<Rightarrow>
          (if entries \<noteq> [] then (Inr (sampleDetails (drop 1 c)), prompt)
           else (Inl (LibError ''no matching key''), prompt))
      | [SymmetricKeyEncrypted secret, SymmetricallyEncrypted c] \<Rightarrow>
          (case prompt of
             None \<Rightarrow> (Inl (LibError ''no passphrase''), None)
           | Some f \<Rightarrow>
               (case sampleUnlock secret f of
                  (Inl e, f') \<Rightarrow> (Inl e, Some f')
                | (Inr _, f') \<Rightarrow> (Inr (sampleDetails (drop 1 c)), Some f')))
      | _ \<Rightarrow> (Inl (LibError ''malformed message''), prompt))"

definition sampleVerifyingDetachedReader ::
  "Reader \<Rightarrow> Reader \<Rightarrow> KeyRing option \<Rightarrow> VerificationContext option \<Rightarrow> bool \<Rightarrow> Config \<Rightarrow> Clock
     \<Rightarrow> error + VerifyDataReader" where
  "sampleVerifyingDetachedReader body signature ring context noTimeCheck config c =
     Inr \<lparr>details = \<lparr>IsSigned = True, SignatureCandidates = [], UnverifiedBody = body,
                      LiteralData = Some \<lparr>IsBinary = False, FileName = delivered signature,
                                          LiteralData.Time = 0\<rparr>,
                      MessageDetails.SessionKey = None\<rparr>,
          internalReader = body, verifyKeyRing = ring, verifyTime = c,
          disableTimeCheck = noTimeCheck, readAll = False, verificationContext = context\<rparr>"

definition sampleNewKeyRing :: "Key option \<Rightarrow> KeyRing option \<times> error option" where
  "sampleNewKeyRing k =
     (case k of
        None \<Rightarrow> (Some \<lparr>entities = []\<rparr>, None)
      | Some n \<Rightarrow>
          (if n = 0 then (Some \<lparr>entities = []\<rparr>, Some (LibError ''invalid key''))
           else (Some \<lparr>entities = [n]\<rparr>, None)))"

definition sampleAddKey :: "KeyRing \<Rightarrow> Key option \<Rightarrow> KeyRing \<times> error option" where
  "sampleAddKey ring k =
     (case k of
        None \<Rightarrow> (ring, Some (LibError ''invalid key''))
      | Some n \<Rightarrow>
          (if n = 0 then (ring, Some (LibError ''invalid key''))
           else (ring\<lparr>entities := entities ring @ [n]\<rparr>, None)))"

definition sampleValidate :: "decryptionHandle \<Rightarrow> error option" where
  "sampleValidate dh =
     (if DecryptionKeyRing dh = None \<and> Password dh = None \<and> SessionKeys dh = [] \<and>
         decryptionHandle.SessionKey dh = None
      then Some (ErrNew ''gopenpgp: no decryption key material provided'')
      else None)"

definition sampleDefaultHandle :: "Clock \<Rightarrow> decryptionHandle" where
  "sampleDefaultHandle c =
     \<lparr>DecryptionKeyRing = None, SessionKeys = [], decryptionHandle.SessionKey = None,
      Password = None, VerifyKeyRing = None, VerificationContext = None,
      DisableIntendedRecipients = False, DisableVerifyTimeCheck = False,
      RetrieveSessionKey = False, clock = c\<rparr>"

definition sample :: collaborators where
  "sample =
     \<lparr>GetCipherFunc = sampleGetCipherFunc,
      Decrypt = sampleDecrypt,
      ReadMessage = sampleReadMessage,
      verifyingDetachedReader = sampleVerifyingDetachedReader,
      SignatureContextName = ''sample context'',
      NewKeyRing = sampleNewKeyRing,
      AddKey = sampleAddKey,
      validate = sampleValidate,
      defaultDecryptionHandle = sampleDefaultHandle\<rparr>"

text \<open>The same collaborators with a parser that returns the given message details.\<close>

definition sampleParsing :: "MessageDetails \<Rightarrow> collaborators" where
  "sampleParsing md = sample\<lparr>ReadMessage := (\<lambda>r entries prompt config. (Inr md, prompt))\<rparr>"

subsection \<open>Sample inputs\<close>

text \<open>
  Two session keys, of which \<open>goodKey\<close> opens the sample data packet, and handles that
  hold session keys or a password.
\<close>

definition goodKey :: SessionKey where
  "goodKey = \<lparr>Key = ''K'', Algo = ''aes256'', v6 = False\<rparr>"

definition wrongKey :: SessionKey where
  "wrongKey = \<lparr>Key = ''X'', Algo = ''aes256'', v6 = False\<rparr>"

definition sessionHandle :: "SessionKey list \<Rightarrow> decryptionHandle" where
  "sessionHandle ks = (sampleDefaultHandle 1700000000)\<lparr>SessionKeys := ks\<rparr>"

definition passwordHandle :: "bytes \<Rightarrow> decryptionHandle" where
  "passwordHandle pw = (sampleDefaultHandle 1700000000)\<lparr>Password := Some pw\<rparr>"

definition helloPacket :: packet where
  "helloPacket = SymmetricallyEncrypted ''KHello World!''"

text \<open>A handle with both a decryption key ring and a password.\<close>

definition bothHandle :: decryptionHandle where
  "bothHandle = (sampleDefaultHandle 1700000000)
     \<lparr>DecryptionKeyRing := Some \<lparr>entities = [7]\<rparr>, Password := Some ''secret''\<rparr>"

text \<open>A builder with a password, a verification time and a flag set.\<close>

definition configuredBuilder :: DecryptionHandleBuilder where
  "configuredBuilder =
     RetrieveSessionKey_setter (VerifyTime 5 (Password_setter (Some ''secret'')
       (newDecryptionHandleBuilder sample 1700000000)))"

text \<open>A builder whose first key setter failed.\<close>

definition failedBuilder :: DecryptionHandleBuilder where
  "failedBuilder = DecryptionKey sample (Some 0) (newDecryptionHandleBuilder sample 1700000000)"

text \<open>A data stream and a signature stream locked with the same passphrase.\<close>

definition secretData :: "packet list" where
  "secretData = [SymmetricKeyEncrypted ''secret'', helloPacket]"

definition secretSignature :: "packet list" where
  "secretSignature = [SymmetricKeyEncrypted ''secret'', SymmetricallyEncrypted ''Ksignature'']"

text \<open>Detached verification of the sample message with a signature stream of given bytes.\<close>

definition helloBody :: Reader where
  "helloBody = checkReader [OtherPacket 11 ''Hello World!''] (BodyReader ''Hello World!'')"

definition detachedSample :: "bytes \<Rightarrow> error + VerifyDataReader" where
  "detachedSample signatureBytes =
     decryptStreamAndVerifyDetached sample (sessionHandle [goodKey]) [helloPacket]
       [SymmetricallyEncrypted (''K'' @ signatureBytes)]"

definition detachedExpected :: VerifyDataReader where
  "detachedExpected =
     \<lparr>details = \<lparr>IsSigned = True, SignatureCandidates = [], UnverifiedBody = helloBody,
                  LiteralData = Some \<lparr>IsBinary = True, FileName = ''filename.txt'',
                                      LiteralData.Time = 12\<rparr>,
                  MessageDetails.SessionKey = Some ''K''\<rparr>,
      internalReader = helloBody, verifyKeyRing = None, verifyTime = 1700000000,
      disableTimeCheck = False, readAll = False, verificationContext = None\<rparr>"

text \<open>
  A body with CRLF line endings, message details with a text signature last and with a
  text signature first, and the reader the sample handles return over given details.
\<close>

definition crlfBody :: bytes where
  "crlfBody = terminated [CR, LF] [''line one'', ''line two'']"

definition textDetails :: MessageDetails where
  "textDetails =
     \<lparr>IsSigned = True,
      SignatureCandidates = [\<lparr>SigType = SigTypeBinary\<rparr>, \<lparr>SigType = SigTypeText\<rparr>],
      UnverifiedBody = BodyReader crlfBody,
      LiteralData = None, MessageDetails.SessionKey = None\<rparr>"

definition mixedDetails :: MessageDetails where
  "mixedDetails =
     \<lparr>IsSigned = True,
      SignatureCandidates = [\<lparr>SigType = SigTypeText\<rparr>, \<lparr>SigType = SigTypeBinary\<rparr>],
      UnverifiedBody = BodyReader crlfBody,
      LiteralData = None, MessageDetails.SessionKey = None\<rparr>"

definition readerOver :: "MessageDetails \<Rightarrow> Reader \<Rightarrow> VerifyDataReader" where
  "readerOver md r =
     \<lparr>details = md, internalReader = r, verifyKeyRing = None, verifyTime = 1700000000,
      disableTimeCheck = False, readAll = False, verificationContext = None\<rparr>"

text \<open>
  A candidate whose cipher name is not supported, the details of the sample message once
  decrypted, and a packet that is neither a key packet nor a data packet.
\<close>

definition unsupportedKey :: SessionKey where
  "unsupportedKey = \<lparr>Key = ''K'', Algo = ''des'', v6 = False\<rparr>"

definition helloDetails :: MessageDetails where
  "helloDetails =
     (sampleDetails ''Hello World!'')
       \<lparr>MessageDetails.SessionKey := Some ''K'',
        UnverifiedBody := checkReader [OtherPacket 11 ''Hello World!''] (BodyReader ''Hello World!'')\<rparr>"

definition signaturePacket :: packet where
  "signaturePacket = OtherPacket 2 ''signature''"

text \<open>
  A signature stream that only the key \<open>X\<close> (\<open>wrongKey\<close>, wrong for the sample data
  packet) opens, and its details once decrypted.
\<close>

definition otherSignature :: packet where
  "otherSignature = SymmetricallyEncrypted ''Xsignature''"

definition signatureDetails :: MessageDetails where
  "signatureDetails =
     (sampleDetails ''signature'')
       \<lparr>MessageDetails.SessionKey := Some ''X'',
        UnverifiedBody := checkReader [OtherPacket 11 ''signature''] (BodyReader ''signature'')\<rparr>"

section \<open>The password prompt\<close>

lemma promptCalls_exhausted:
  "\<not> firstTimeCalled prompt \<Longrightarrow>
   promptCalls prompt args =
     map (\<lambda>_. Inl (ErrNew ''gopenpgp: wrong password in symmetric decryption'')) args"
  by (induction args arbitrary: prompt) (auto simp: promptCall_def)

lemma promptCalls_fresh:
  "promptCalls \<lparr>password = pw, firstTimeCalled = True\<rparr> (a # args) =
     Inr pw # map (\<lambda>_. Inl (ErrNew ''gopenpgp: wrong password in symmetric decryption'')) args"
  by (cases a) (simp add: promptCall_def promptCalls_exhausted)

text \<open>
  Claim C2. In password mode (a password and no decryption key ring) the prompt that
  \<^verbatim>\<open>createPasswordPrompt\<close> builds answers its first invocation with the configured
  password and every later invocation with the terminal error, whatever the arguments;
  so the password is handed out once and never again. When reading the message fails,
  \<^verbatim>\<open>decryptStream\<close> returns its wrong-password error.
\<close>

theorem password_prompt_one_shot:
  assumes "Password dh = Some pw" and "DecryptionKeyRing dh = None"
  shows "createPasswordPrompt (Password dh) = Some \<lparr>password = pw, firstTimeCalled = True\<rparr> \<and>
    (\<forall>a args. promptCalls \<lparr>password = pw, firstTimeCalled = True\<rparr> (a # args) =
       Inr pw # map (\<lambda>_. Inl (ErrNew ''gopenpgp: wrong password in symmetric decryption'')) args) \<and>
    (\<forall>e q. ReadMessage x encryptedMessage (decryptStreamEntries dh)
               (createPasswordPrompt (Password dh)) (decryptStreamConfig x dh) = (Inl e, q) \<longrightarrow>
       decryptStream x dh encryptedMessage =
         Inl (ErrNew ''gopenpgp: error in reading password protected message: wrong password or malformed message''))"
proof (intro conjI allI impI)
  show "createPasswordPrompt (Password dh) = Some \<lparr>password = pw, firstTimeCalled = True\<rparr>"
    using assms(1) by (simp add: createPasswordPrompt_def)
next
  fix a args
  show "promptCalls \<lparr>password = pw, firstTimeCalled = True\<rparr> (a # args) =
       Inr pw # map (\<lambda>_. Inl (ErrNew ''gopenpgp: wrong password in symmetric decryption'')) args"
    by (rule promptCalls_fresh)
next
  fix e q
  assume "ReadMessage x encryptedMessage (decryptStreamEntries dh)
               (createPasswordPrompt (Password dh)) (decryptStreamConfig x dh) = (Inl e, q)"
  then show "decryptStream x dh encryptedMessage =
         Inl (ErrNew ''gopenpgp: error in reading password protected message: wrong password or malformed message'')"
    using assms(2) by (simp add: decryptStream_def)
qed

theorem password_prompt_one_shot_witness:
  "Password (passwordHandle ''guess'') = Some ''guess'' \<and>
   DecryptionKeyRing (passwordHandle ''guess'') = None \<and>
   promptCalls \<lparr>password = ''guess'', firstTimeCalled = True\<rparr> [([], True), ([], True), ([], True)] =
     [Inr ''guess'', Inl (ErrNew ''gopenpgp: wrong password in symmetric decryption''),
      Inl (ErrNew ''gopenpgp: wrong password in symmetric decryption'')] \<and>
   ReadMessage sample [SymmetricKeyEncrypted ''secret'', helloPacket]
       (decryptStreamEntries (passwordHandle ''guess''))
       (createPasswordPrompt (Password (passwordHandle ''guess'')))
       (decryptStreamConfig sample (passwordHandle ''guess'')) =
     (Inl (ErrNew ''gopenpgp: wrong password in symmetric decryption''),
      Some \<lparr>password = ''guess'', firstTimeCalled = False\<rparr>) \<and>
   decryptStream sample (passwordHandle ''guess'') [SymmetricKeyEncrypted ''secret'', helloPacket] =
     Inl (ErrNew ''gopenpgp: error in reading password protected message: wrong password or malformed message'')"
proof -
  have pw: "Password (passwordHandle ''guess'') = Some ''guess''"
    by (simp add: passwordHandle_def sampleDefaultHandle_def)
  have ring: "DecryptionKeyRing (passwordHandle ''guess'') = None"
    by (simp add: passwordHandle_def sampleDefaultHandle_def)
  have rm: "ReadMessage sample [SymmetricKeyEncrypted ''secret'', helloPacket]
       (decryptStreamEntries (passwordHandle ''guess''))
       (createPasswordPrompt (Password (passwordHandle ''guess'')))
       (decryptStreamConfig sample (passwordHandle ''guess'')) =
     (Inl (ErrNew ''gopenpgp: wrong password in symmetric decryption''),
      Some \<lparr>password = ''guess'', firstTimeCalled = False\<rparr>)"
    by (simp add: pw sample_def sampleReadMessage_def helloPacket_def createPasswordPrompt_def
        sampleUnlock_def promptCall_def)
  note t = password_prompt_one_shot [OF pw ring, of sample "[SymmetricKeyEncrypted ''secret'', helloPacket]"]
  from t have c: "\<And>a args. promptCalls \<lparr>password = ''guess'', firstTimeCalled = True\<rparr> (a # args) =
       Inr ''guess'' # map (\<lambda>_. Inl (ErrNew ''gopenpgp: wrong password in symmetric decryption'')) args"
    by blast
  have calls: "promptCalls \<lparr>password = ''guess'', firstTimeCalled = True\<rparr> [([], True), ([], True), ([], True)] =
     [Inr ''guess'', Inl (ErrNew ''gopenpgp: wrong password in symmetric decryption''),
      Inl (ErrNew ''gopenpgp: wrong password in symmetric decryption'')]"
    by (simp only: c list.map)
  from t rm have "decryptStream sample (passwordHandle ''guess'') [SymmetricKeyEncrypted ''secret'', helloPacket] =
     Inl (ErrNew ''gopenpgp: error in reading password protected message: wrong password or malformed message'')"
    by blast
  with pw ring rm calls show ?thesis by blast
qed

section \<open>decryptStream: the choice of the path\<close>

lemma decryptStream_private_keys:
  "DecryptionKeyRing dh \<noteq> None \<Longrightarrow>
   decryptStream x dh encryptedMessage =
     (case fst (ReadMessage x encryptedMessage (decryptStreamEntries dh) None (decryptStreamConfig x dh)) of
        Inl e \<Rightarrow> Inl (ErrWrap e ''gopenpgp: decrypting message with private keys failed'')
      | Inr messageDetails \<Rightarrow>
          Inr \<lparr>details = messageDetails, internalReader = addSanitizer messageDetails,
               verifyKeyRing = VerifyKeyRing dh, verifyTime = NewConstantClock (clock dh),
               disableTimeCheck = DisableVerifyTimeCheck dh, readAll = False,
               verificationContext = VerificationContext dh\<rparr>)"
  by (simp add: decryptStream_def split: sum.splits)

lemma decryptStream_password:
  "DecryptionKeyRing dh = None \<Longrightarrow>
   decryptStream x dh encryptedMessage =
     (case fst (ReadMessage x encryptedMessage (decryptStreamEntries dh)
                  (createPasswordPrompt (Password dh)) (decryptStreamConfig x dh)) of
        Inl e \<Rightarrow> Inl (ErrNew ''gopenpgp: error in reading password protected message: wrong password or malformed message'')
      | Inr messageDetails \<Rightarrow>
          Inr \<lparr>details = messageDetails, internalReader = addSanitizer messageDetails,
               verifyKeyRing = VerifyKeyRing dh, verifyTime = NewConstantClock (clock dh),
               disableTimeCheck = DisableVerifyTimeCheck dh, readAll = False,
               verificationContext = VerificationContext dh\<rparr>)"
  by (simp add: decryptStream_def split: sum.splits)

lemma decryptStreamEntries_Password [simp]:
  "decryptStreamEntries (dh\<lparr>Password := pw\<rparr>) = decryptStreamEntries dh"
  by (simp add: decryptStreamEntries_def)

lemma decryptStreamConfig_Password [simp]:
  "decryptStreamConfig x (dh\<lparr>Password := pw\<rparr>) = decryptStreamConfig x dh"
  by (simp add: decryptStreamConfig_def Let_def)

lemma decryptStreamConfig_ReadMessage [simp]:
  "decryptStreamConfig (x\<lparr>ReadMessage := f\<rparr>) dh = decryptStreamConfig x dh"
  by (simp add: decryptStreamConfig_def Let_def)

text \<open>
  Claim C10. Whenever the handle has a decryption key ring, \<^verbatim>\<open>decryptStream\<close> reads the
  message on the private-key path and hands the parser no password prompt, also when a
  password is configured: the result is the same with a parser that is never given a
  prompt, and the same whatever the password field holds. Only a handle without a
  decryption key ring takes the password path, where the parser is given the prompt made
  from the configured password.
\<close>

theorem private_keys_precede_password:
  "(DecryptionKeyRing dh \<noteq> None \<longrightarrow>
      decryptStream x dh encryptedMessage =
        decryptStream (x\<lparr>ReadMessage := (\<lambda>r entries prompt config. ReadMessage x r entries None config)\<rparr>)
          dh encryptedMessage \<and>
      decryptStream x (dh\<lparr>Password := pw\<rparr>) encryptedMessage = decryptStream x dh encryptedMessage \<and>
      (\<forall>e q. ReadMessage x encryptedMessage (decryptStreamEntries dh) None (decryptStreamConfig x dh) = (Inl e, q)
         \<longrightarrow> decryptStream x dh encryptedMessage =
               Inl (ErrWrap e ''gopenpgp: decrypting message with private keys failed''))) \<and>
   (DecryptionKeyRing dh = None \<longrightarrow>
      decryptStream x dh encryptedMessage =
        decryptStream (x\<lparr>ReadMessage := (\<lambda>r entries prompt config.
            ReadMessage x r entries (createPasswordPrompt (Password dh)) config)\<rparr>) dh encryptedMessage)"
proof (intro conjI impI allI)
  assume ring: "DecryptionKeyRing dh \<noteq> None"
  show "decryptStream x dh encryptedMessage =
        decryptStream (x\<lparr>ReadMessage := (\<lambda>r entries prompt config. ReadMessage x r entries None config)\<rparr>)
          dh encryptedMessage"
    using ring by (simp add: decryptStream_private_keys)
  show "decryptStream x (dh\<lparr>Password := pw\<rparr>) encryptedMessage = decryptStream x dh encryptedMessage"
    using ring by (simp add: decryptStream_private_keys split: sum.splits)
  fix e q
  assume "ReadMessage x encryptedMessage (decryptStreamEntries dh) None (decryptStreamConfig x dh) = (Inl e, q)"
  then show "decryptStream x dh encryptedMessage =
               Inl (ErrWrap e ''gopenpgp: decrypting message with private keys failed'')"
    using ring by (simp add: decryptStream_private_keys)
next
  assume "DecryptionKeyRing dh = None"
  then show "decryptStream x dh encryptedMessage =
        decryptStream (x\<lparr>ReadMessage := (\<lambda>r entries prompt config.
            ReadMessage x r entries (createPasswordPrompt (Password dh)) config)\<rparr>) dh encryptedMessage"
    by (simp add: decryptStream_password)
qed

theorem private_keys_precede_password_witness:
  "DecryptionKeyRing bothHandle \<noteq> None \<and>
   ReadMessage sample [SymmetricKeyEncrypted ''secret'', helloPacket]
      (decryptStreamEntries bothHandle) None (decryptStreamConfig sample bothHandle) =
     (Inl (LibError ''no passphrase''), None) \<and>
   decryptStream sample bothHandle [SymmetricKeyEncrypted ''secret'', helloPacket] =
     Inl (ErrWrap (LibError ''no passphrase'') ''gopenpgp: decrypting message with private keys failed'') \<and>
   DecryptionKeyRing (passwordHandle ''secret'') = None \<and>
   decryptStream sample (passwordHandle ''secret'') [SymmetricKeyEncrypted ''secret'', helloPacket] =
     decryptStream (sample\<lparr>ReadMessage := (\<lambda>r entries prompt config.
            ReadMessage sample r entries (createPasswordPrompt (Password (passwordHandle ''secret''))) config)\<rparr>)
       (passwordHandle ''secret'') [SymmetricKeyEncrypted ''secret'', helloPacket]"
proof -
  have ring: "DecryptionKeyRing bothHandle \<noteq> None"
    by (simp add: bothHandle_def sampleDefaultHandle_def)
  have rm: "ReadMessage sample [SymmetricKeyEncrypted ''secret'', helloPacket]
      (decryptStreamEntries bothHandle) None (decryptStreamConfig sample bothHandle) =
     (Inl (LibError ''no passphrase''), None)"
    by (simp add: sample_def sampleReadMessage_def helloPacket_def)
  have none: "DecryptionKeyRing (passwordHandle ''secret'') = None"
    by (simp add: passwordHandle_def sampleDefaultHandle_def)
  note a = private_keys_precede_password
    [of bothHandle sample "[SymmetricKeyEncrypted ''secret'', helloPacket]" None]
  note b = private_keys_precede_password
    [of "passwordHandle ''secret''" sample "[SymmetricKeyEncrypted ''secret'', helloPacket]" None]
  from a ring rm have "decryptStream sample bothHandle [SymmetricKeyEncrypted ''secret'', helloPacket] =
     Inl (ErrWrap (LibError ''no passphrase'') ''gopenpgp: decrypting message with private keys failed'')"
    by blast
  moreover from b none have "decryptStream sample (passwordHandle ''secret'') [SymmetricKeyEncrypted ''secret'', helloPacket] =
     decryptStream (sample\<lparr>ReadMessage := (\<lambda>r entries prompt config.
            ReadMessage sample r entries (createPasswordPrompt (Password (passwordHandle ''secret''))) config)\<rparr>)
       (passwordHandle ''secret'') [SymmetricKeyEncrypted ''secret'', helloPacket]"
    by blast
  ultimately show ?thesis using ring rm none by blast
qed

section \<open>The sanitizer\<close>

lemma canonicalize_Cons_plain: "c \<noteq> CR \<Longrightarrow> canonicalize (c # xs) = c # canonicalize xs"
  by (cases xs) auto

lemma canonicalize_append_plain: "CR \<notin> set l \<Longrightarrow> canonicalize (l @ xs) = l @ canonicalize xs"
  by (induction l) (auto simp: canonicalize_Cons_plain)

lemma canonicalize_CR: "xs = [] \<or> hd xs \<noteq> LF \<Longrightarrow> canonicalize (CR # xs) = LF # canonicalize xs"
  by (cases xs) auto

lemma CR_neq_LF: "CR \<noteq> LF"
  by (simp add: CR_def LF_def)

lemma terminated_CR_head:
  "list_all plainLine ls \<Longrightarrow> terminated [CR] ls = [] \<or> hd (terminated [CR] ls) \<noteq> LF"
  by (cases ls; cases "hd ls") (auto simp: terminated_def plainLine_def CR_neq_LF)

lemma canonicalize_terminated_LF:
  "list_all plainLine ls \<Longrightarrow> canonicalize (terminated [LF] ls) = terminated [LF] ls"
proof (induction ls)
  case Nil
  then show ?case by (simp add: terminated_def)
next
  case (Cons l ls)
  then have "canonicalize (l @ LF # terminated [LF] ls) = l @ LF # terminated [LF] ls"
    using CR_neq_LF by (simp add: canonicalize_append_plain canonicalize_Cons_plain plainLine_def)
  then show ?case by (simp add: terminated_def)
qed

lemma canonicalize_terminated_CRLF:
  "list_all plainLine ls \<Longrightarrow> canonicalize (terminated [CR, LF] ls) = terminated [LF] ls"
proof (induction ls)
  case Nil
  then show ?case by (simp add: terminated_def)
next
  case (Cons l ls)
  then have "canonicalize (l @ CR # LF # terminated [CR, LF] ls) = l @ LF # terminated [LF] ls"
    by (simp add: canonicalize_append_plain plainLine_def)
  then show ?case by (simp add: terminated_def)
qed

lemma canonicalize_terminated_CR:
  "list_all plainLine ls \<Longrightarrow> canonicalize (terminated [CR] ls) = terminated [LF] ls"
proof (induction ls)
  case Nil
  then show ?case by (simp add: terminated_def)
next
  case (Cons l ls)
  from Cons.prems have tl: "list_all plainLine ls" by simp
  from Cons.prems have pl: "CR \<notin> set l" by (simp add: plainLine_def)
  have "canonicalize (l @ CR # terminated [CR] ls) = l @ LF # canonicalize (terminated [CR] ls)"
    using terminated_CR_head [OF tl] pl by (simp add: canonicalize_append_plain canonicalize_CR)
  with Cons.IH [OF tl] show ?case by (simp add: terminated_def)
qed

lemma canonicalize_line_endings:
  "sep \<in> {[CR], [LF], [CR, LF]} \<Longrightarrow> list_all plainLine ls \<Longrightarrow>
   canonicalize (terminated sep ls) = terminated [LF] ls"
  using canonicalize_terminated_CR canonicalize_terminated_LF canonicalize_terminated_CRLF
  by auto

lemma decryptStream_internalReader:
  "decryptStream x dh m = Inr r \<Longrightarrow> internalReader r = addSanitizer (details r)"
  by (auto simp: decryptStream_def Let_def split: if_splits sum.splits)

lemma decryptStreamWithSession_internalReader:
  "decryptStreamWithSession x dh m = Inr r \<Longrightarrow> internalReader r = addSanitizer (details r)"
  by (auto simp: decryptStreamWithSession_def split: prod.splits option.splits)

text \<open>
  Claim C3, as amended. When the message is signed and the last signature candidate has
  type text, the reader handed to the caller is the sanitizer over the unverified body, so
  the caller reads the canonical form: a body whose lines end in CR, LF or CRLF is read
  with every line ending in LF. In every other case the caller gets the unverified body
  itself. This holds for \<^verbatim>\<open>decryptStream\<close> and for \<^verbatim>\<open>decryptStreamWithSession\<close>.
\<close>

theorem sanitizer_follows_last_candidate:
  assumes "decryptStream x dh m = Inr r \<or> decryptStreamWithSession x dh m = Inr r"
  shows "(lastCandidateIsText (details r) \<longrightarrow>
            internalReader r = SanitizeReader (UnverifiedBody (details r)) \<and>
            delivered (internalReader r) = canonicalize (delivered (UnverifiedBody (details r))) \<and>
            (\<forall>sep ls. sep \<in> {[CR], [LF], [CR, LF]} \<and> list_all plainLine ls \<and>
                 delivered (UnverifiedBody (details r)) = terminated sep ls
               \<longrightarrow> delivered (internalReader r) = terminated [LF] ls)) \<and>
         (\<not> lastCandidateIsText (details r) \<longrightarrow> internalReader r = UnverifiedBody (details r))"
proof -
  from assms have i: "internalReader r = addSanitizer (details r)"
    by (auto dest: decryptStream_internalReader decryptStreamWithSession_internalReader)
  show ?thesis
    by (auto simp: i addSanitizer_def lastCandidateIsText_def canonicalize_line_endings)
qed

theorem sanitizer_follows_last_candidate_witness:
  "decryptStream (sampleParsing textDetails) (passwordHandle ''secret'') [] =
     Inr (readerOver textDetails (SanitizeReader (BodyReader crlfBody))) \<and>
   lastCandidateIsText textDetails \<and>
   list_all plainLine [''line one'', ''line two''] \<and>
   delivered (SanitizeReader (BodyReader crlfBody)) = terminated [LF] [''line one'', ''line two'']"
proof -
  let ?r = "readerOver textDetails (SanitizeReader (BodyReader crlfBody))"
  have run: "decryptStream (sampleParsing textDetails) (passwordHandle ''secret'') [] = Inr ?r"
    by (simp add: decryptStream_def sampleParsing_def passwordHandle_def sampleDefaultHandle_def
        readerOver_def addSanitizer_def textDetails_def NewConstantClock_def Let_def)
  have d: "details ?r = textDetails" and ir: "internalReader ?r = SanitizeReader (BodyReader crlfBody)"
    by (simp_all add: readerOver_def)
  have last_text: "lastCandidateIsText textDetails"
    by (simp add: lastCandidateIsText_def textDetails_def)
  have plain: "list_all plainLine [''line one'', ''line two'']"
    by (simp add: plainLine_def CR_def LF_def)
  have body: "delivered (UnverifiedBody textDetails) = terminated [CR, LF] [''line one'', ''line two'']"
    by (simp add: textDetails_def crlfBody_def)
  have sep: "[CR, LF] \<in> {[CR], [LF], [CR, LF]}"
    by simp
  note t = sanitizer_follows_last_candidate [OF disjI1, OF run, THEN conjunct1, THEN mp,
      unfolded d ir, OF last_text, THEN conjunct2, THEN conjunct2, THEN spec, THEN spec, THEN mp,
      OF conjI, OF sep, OF conjI, OF plain body]
  from run last_text plain t show ?thesis by (intro conjI)
qed

text \<open>
  Claim C3 as stated fails: a message with a text signature that is not the last
  candidate is handed to the caller unfiltered, its CRLF line endings as they were.
\<close>

theorem text_signature_not_last_counterexample:
  "decryptStream (sampleParsing mixedDetails) (passwordHandle ''secret'') [] =
     Inr (readerOver mixedDetails (BodyReader crlfBody)) \<and>
   \<lparr>SigType = SigTypeText\<rparr> \<in> set (SignatureCandidates mixedDetails) \<and>
   BodyReader crlfBody \<noteq> SanitizeReader (UnverifiedBody mixedDetails) \<and>
   delivered (BodyReader crlfBody) = terminated [CR, LF] [''line one'', ''line two''] \<and>
   terminated [CR, LF] [''line one'', ''line two''] \<noteq> terminated [LF] [''line one'', ''line two'']"
  by (simp add: decryptStream_def sampleParsing_def passwordHandle_def sampleDefaultHandle_def
      readerOver_def addSanitizer_def mixedDetails_def NewConstantClock_def Let_def
      SigTypeText_def SigTypeBinary_def crlfBody_def terminated_def CR_def LF_def)

section \<open>The candidate loop\<close>

lemma sessionKeyCandidates_outcome:
  "sessionKeyCandidates x ks r e = (sel, e') \<Longrightarrow>
   (sel = None \<and> e' = e \<and> ks = []) \<or> (sel = None \<and> ks \<noteq> [] \<and> e' \<noteq> None) \<or> (sel \<noteq> None \<and> e' = None)"
  by (induction ks arbitrary: r e) (auto split: prod.splits sum.splits)

lemma session_parse_never_nil_nil:
  "SessionKeys dh \<noteq> [] \<Longrightarrow> decryptStreamWithSessionAndParse x dh r \<noteq> (None, t, None)"
proof
  assume ne: "SessionKeys dh \<noteq> []" and eq: "decryptStreamWithSessionAndParse x dh r = (None, t, None)"
  obtain sel e' where c: "sessionKeyCandidates x (SessionKeys dh) r None = (sel, e')"
    by (cases "sessionKeyCandidates x (SessionKeys dh) r None")
  from sessionKeyCandidates_outcome [OF c] ne eq c show False
    by (auto simp: decryptStreamWithSessionAndParse_def errors_Wrap_def split: option.splits sum.splits)
qed

lemma decryptStreamWithSessionKey_skips_key_packets:
  "list_all isKeyPacket ks \<Longrightarrow>
   decryptStreamWithSessionKey x sk (ks @ rest) = decryptStreamWithSessionKey x sk rest"
  by (induction ks) (auto simp: isKeyPacket_def split: packet.splits)

lemma decryptStreamWithSessionKey_invalid_packet:
  "list_all isKeyPacket ks \<Longrightarrow>
   decryptStreamWithSessionKey x sk (ks @ OtherPacket t b # rest) =
     (Inl (ErrNew ''gopenpgp: invalid packet type''), rest)"
  by (simp add: decryptStreamWithSessionKey_skips_key_packets)

lemma decryptStreamWithSessionKey_data_packet:
  "list_all isKeyPacket ks \<Longrightarrow> p = SymmetricallyEncrypted c \<or> p = AEADEncrypted c \<Longrightarrow>
   decryptStreamWithSessionKey x sk (ks @ p # rest) = (decryptDataPacket x sk p, rest)"
  by (auto simp: decryptStreamWithSessionKey_skips_key_packets)

lemma single_candidate_invalid_packet:
  "SessionKeys dh = [sk] \<Longrightarrow> list_all isKeyPacket ks \<Longrightarrow>
   decryptStreamWithSessionAndParse x dh (ks @ OtherPacket t b # rest) =
     (None, 0, Some (ErrWrap (ErrNew ''gopenpgp: invalid packet type'')
                       ''gopenpgp: unable to decrypt message with session key''))"
  by (simp add: decryptStreamWithSessionAndParse_def decryptStreamWithSessionKey_invalid_packet
      errors_Wrap_def)

lemma first_candidate_selected:
  "fst (decryptStreamWithSessionKey x k r) = Inr decrypted \<Longrightarrow>
   sessionKeyCandidates x (k # ks) r e = (Some (decrypted, k), None)"
  by (cases "decryptStreamWithSessionKey x k r") simp

lemma next_candidate_reads_on:
  "decryptStreamWithSessionKey x k r = (Inl e1, r') \<Longrightarrow>
   sessionKeyCandidates x (k # ks) r e = sessionKeyCandidates x ks r' (Some e1)"
  by simp

lemma selected_candidate_is_in_list:
  "sessionKeyCandidates x ks r e = (Some (decrypted, k), e') \<Longrightarrow>
   \<exists>before after r'. ks = before @ k # after \<and>
      fst (sessionKeyCandidates x before r e) = None \<and>
      fst (decryptStreamWithSessionKey x k r') = Inr decrypted"
proof (induction ks arbitrary: r e)
  case Nil
  then show ?case by simp
next
  case (Cons a ks)
  obtain res r1 where att: "decryptStreamWithSessionKey x a r = (res, r1)"
    by (cases "decryptStreamWithSessionKey x a r")
  show ?case
  proof (cases res)
    case (Inr d)
    with Cons.prems att have "a = k" and "d = decrypted" by simp_all
    with att Inr have "a # ks = [] @ k # ks \<and> fst (sessionKeyCandidates x [] r e) = None \<and>
        fst (decryptStreamWithSessionKey x k r) = Inr decrypted"
      by simp
    then show ?thesis by blast
  next
    case (Inl e1)
    with Cons.prems att have "sessionKeyCandidates x ks r1 (Some e1) = (Some (decrypted, k), e')"
      by simp
    from Cons.IH [OF this] obtain before after r' where
      s: "ks = before @ k # after" and
      n: "fst (sessionKeyCandidates x before r1 (Some e1)) = None" and
      d: "fst (decryptStreamWithSessionKey x k r') = Inr decrypted"
      by blast
    from s n att Inl have "a # ks = (a # before) @ k # after \<and>
        fst (sessionKeyCandidates x (a # before) r e) = None"
      by simp
    with d show ?thesis by blast
  qed
qed

lemma no_candidate_succeeds:
  assumes "SessionKeys dh \<noteq> []"
      and "fst (sessionKeyCandidates x (SessionKeys dh) r None) = None"
  shows "\<exists>lastErr. snd (sessionKeyCandidates x (SessionKeys dh) r None) = Some lastErr \<and>
           decryptStreamWithSessionAndParse x dh r =
             (None, 0, Some (ErrWrap lastErr ''gopenpgp: unable to decrypt message with session key''))"
proof -
  obtain sel e' where c: "sessionKeyCandidates x (SessionKeys dh) r None = (sel, e')"
    by (cases "sessionKeyCandidates x (SessionKeys dh) r None")
  with assms(2) have n: "sel = None" by simp
  from sessionKeyCandidates_outcome [OF c] assms(1) n obtain lastErr where "e' = Some lastErr"
    by auto
  with c n show ?thesis
    by (simp add: decryptStreamWithSessionAndParse_def errors_Wrap_def)
qed

lemma correct_first_candidate_decrypts:
  assumes "SessionKeys dh = k # ks" and "list_all isKeyPacket keyPackets"
      and "p = SymmetricallyEncrypted c \<or> p = AEADEncrypted c"
      and "decryptDataPacket x k p = Inr decrypted"
      and "fst (ReadMessage x decrypted (sessionParseKeyring dh) None (sessionParseConfig x dh)) = Inr md"
  shows "decryptStreamWithSessionAndParse x dh (keyPackets @ p # rest) =
     (Some (md\<lparr>MessageDetails.SessionKey := Some (Key k),
               UnverifiedBody := checkReader decrypted (UnverifiedBody md)\<rparr>),
      NewConstantClock (clock dh), None)"
  using assms decryptStreamWithSessionKey_data_packet [OF assms(2,3), of x k rest]
  by (simp add: decryptStreamWithSessionAndParse_def)

lemma sample_good_key_alone:
  "decryptStreamWithSessionAndParse sample (sessionHandle [goodKey]) [helloPacket] =
     (Some helloDetails, 1700000000, None)"
  by (simp add: decryptStreamWithSessionAndParse_def sessionHandle_def sampleDefaultHandle_def
      helloPacket_def decryptDataPacket_def goodKey_def sample_def sampleGetCipherFunc_def
      sampleDecrypt_def sampleReadMessage_def sessionParseConfig_def sampleDetails_def
      helloDetails_def NewConstantClock_def Let_def)

text \<open>
  Claim C1 says that every candidate is tried against the first encrypted-data packet,
  so that a correct candidate decrypts at any position of the list. The loop hands every
  candidate the same forward-only reader: the first attempt takes the data packet off it,
  and the next candidate reads on from where that attempt stopped. Here the sample
  message decrypts with the good key alone; with a candidate in front of it that
  fails on the data packet (wrong key, or a cipher name that is not supported) the
  operation fails, the good key never having seen the packet.
\<close>

theorem correct_candidate_in_second_position_fails:
  "decryptStreamWithSessionAndParse sample (sessionHandle [goodKey]) [helloPacket] =
     (Some helloDetails, 1700000000, None) \<and>
   decryptStreamWithSessionKey sample wrongKey [helloPacket] =
     (Inl (ErrWrap (LibError ''integrity check failed'')
             ''gopenpgp: unable to decrypt symmetric packet''), []) \<and>
   decryptStreamWithSessionAndParse sample (sessionHandle [wrongKey, goodKey]) [helloPacket] =
     (None, 0,
      Some (ErrWrap (ErrWrap EOF ''gopenpgp: unable to read symmetric packet'')
              ''gopenpgp: unable to decrypt message with session key'')) \<and>
   decryptStreamWithSessionAndParse sample (sessionHandle [unsupportedKey, goodKey]) [helloPacket] =
     (None, 0,
      Some (ErrWrap (ErrWrap EOF ''gopenpgp: unable to read symmetric packet'')
              ''gopenpgp: unable to decrypt message with session key''))"
  by (simp add: sample_good_key_alone)
     (simp add: decryptStreamWithSessionAndParse_def sessionHandle_def sampleDefaultHandle_def
      helloPacket_def decryptDataPacket_def goodKey_def wrongKey_def unsupportedKey_def sample_def
      sampleGetCipherFunc_def sampleDecrypt_def errors_Wrap_def)

text \<open>
  Claim C6 says that a packet that is neither a key-exchange nor an encrypted-data packet,
  met before the data packet, makes the operation fail. That holds for one attempt and for
  a single candidate (lemmas \<open>decryptStreamWithSessionKey_invalid_packet\<close> and
  \<open>single_candidate_invalid_packet\<close>). With two candidates the first attempt fails on
  the offending packet and takes it off the shared reader; the second candidate then finds
  the data packet and the operation returns the message.
\<close>

theorem invalid_packet_skipped_by_second_candidate:
  "decryptStreamWithSessionKey sample wrongKey [signaturePacket, helloPacket] =
     (Inl (ErrNew ''gopenpgp: invalid packet type''), [helloPacket]) \<and>
   decryptStreamWithSessionAndParse sample (sessionHandle [wrongKey]) [signaturePacket, helloPacket] =
     (None, 0,
      Some (ErrWrap (ErrNew ''gopenpgp: invalid packet type'')
              ''gopenpgp: unable to decrypt message with session key'')) \<and>
   decryptStreamWithSessionAndParse sample (sessionHandle [wrongKey, goodKey])
       [signaturePacket, helloPacket] =
     (Some helloDetails, 1700000000, None)"
  by (simp add: decryptStreamWithSessionAndParse_def sessionHandle_def sampleDefaultHandle_def
      helloPacket_def signaturePacket_def decryptDataPacket_def goodKey_def wrongKey_def sample_def
      sampleGetCipherFunc_def sampleDecrypt_def sampleReadMessage_def sessionParseConfig_def
      sampleDetails_def helloDetails_def NewConstantClock_def errors_Wrap_def Let_def)

subsection \<open>The second parse\<close>

lemma sessionParseConfig_relaxed: "CheckPacketSequence (sessionParseConfig x dh) = Some False"
  by (simp add: sessionParseConfig_def Let_def)

text \<open>
  Once a candidate has decrypted the data packet, the decrypted packets are parsed by the
  same \<^verbatim>\<open>ReadMessage\<close> as an outer message, with no prompt and with the
  packet-sequence check switched off, and the operation returns what that parse returns.
  Which content \<^verbatim>\<open>ReadMessage\<close> accepts without the check is decided in go-crypto, not
  in these files.
\<close>

lemma session_parse_relaxed_sequence:
  assumes "sessionKeyCandidates x (SessionKeys dh) messageReader None = (Some (decrypted, k), e0)"
  shows "CheckPacketSequence (sessionParseConfig x dh) = Some False \<and>
    (\<forall>e q. ReadMessage x decrypted (sessionParseKeyring dh) None (sessionParseConfig x dh) = (Inl e, q)
       \<longrightarrow> decryptStreamWithSessionAndParse x dh messageReader =
             (None, 0, Some (ErrWrap e ''gopenpgp: unable to decode symmetric packet''))) \<and>
    (\<forall>md q. ReadMessage x decrypted (sessionParseKeyring dh) None (sessionParseConfig x dh) = (Inr md, q)
       \<longrightarrow> decryptStreamWithSessionAndParse x dh messageReader =
             (Some (md\<lparr>MessageDetails.SessionKey := Some (Key k),
                       UnverifiedBody := checkReader decrypted (UnverifiedBody md)\<rparr>),
              NewConstantClock (clock dh), None))"
  using assms by (simp add: sessionParseConfig_relaxed decryptStreamWithSessionAndParse_def)

lemma session_parse_relaxed_sequence_sample:
  "sessionKeyCandidates sample (SessionKeys (sessionHandle [goodKey])) [helloPacket] None =
     (Some ([OtherPacket 11 ''Hello World!''], goodKey), None) \<and>
   fst (ReadMessage sample [OtherPacket 11 ''Hello World!''] (sessionParseKeyring (sessionHandle [goodKey])) None
      ((sessionParseConfig sample (sessionHandle [goodKey]))\<lparr>CheckPacketSequence := Some True\<rparr>)) =
     Inl (LibError ''unexpected packet'') \<and>
   ReadMessage sample [OtherPacket 11 ''Hello World!''] (sessionParseKeyring (sessionHandle [goodKey])) None
      (sessionParseConfig sample (sessionHandle [goodKey])) =
     (Inr (sampleDetails ''Hello World!''), None) \<and>
   decryptStreamWithSessionAndParse sample (sessionHandle [goodKey]) [helloPacket] =
     (Some ((sampleDetails ''Hello World!'')
        \<lparr>MessageDetails.SessionKey := Some ''K'',
         UnverifiedBody := checkReader [OtherPacket 11 ''Hello World!''] (BodyReader ''Hello World!'')\<rparr>),
      1700000000, None)"
proof -
  have sel: "sessionKeyCandidates sample (SessionKeys (sessionHandle [goodKey])) [helloPacket] None =
     (Some ([OtherPacket 11 ''Hello World!''], goodKey), None)"
    by (simp add: sessionHandle_def sampleDefaultHandle_def helloPacket_def decryptDataPacket_def
        goodKey_def sample_def sampleGetCipherFunc_def sampleDecrypt_def)
  have strict: "fst (ReadMessage sample [OtherPacket 11 ''Hello World!''] (sessionParseKeyring (sessionHandle [goodKey])) None
      ((sessionParseConfig sample (sessionHandle [goodKey]))\<lparr>CheckPacketSequence := Some True\<rparr>)) =
     Inl (LibError ''unexpected packet'')"
    by (simp add: sample_def sampleReadMessage_def)
  have relaxed: "ReadMessage sample [OtherPacket 11 ''Hello World!''] (sessionParseKeyring (sessionHandle [goodKey])) None
      (sessionParseConfig sample (sessionHandle [goodKey])) =
     (Inr (sampleDetails ''Hello World!''), None)"
    by (simp add: sample_def sampleReadMessage_def sessionParseConfig_relaxed)
  from session_parse_relaxed_sequence [OF sel] relaxed
  have "decryptStreamWithSessionAndParse sample (sessionHandle [goodKey]) [helloPacket] =
     (Some ((sampleDetails ''Hello World!'')
        \<lparr>MessageDetails.SessionKey := Some (Key goodKey),
         UnverifiedBody := checkReader [OtherPacket 11 ''Hello World!''] (UnverifiedBody (sampleDetails ''Hello World!''))\<rparr>),
      NewConstantClock (clock (sessionHandle [goodKey])), None)"
    by blast
  then have "decryptStreamWithSessionAndParse sample (sessionHandle [goodKey]) [helloPacket] =
     (Some ((sampleDetails ''Hello World!'')
        \<lparr>MessageDetails.SessionKey := Some ''K'',
         UnverifiedBody := checkReader [OtherPacket 11 ''Hello World!''] (BodyReader ''Hello World!'')\<rparr>),
      1700000000, None)"
    by (simp add: goodKey_def sampleDetails_def NewConstantClock_def sessionHandle_def sampleDefaultHandle_def)
  with sel strict relaxed show ?thesis by blast
qed

section \<open>Detached verification\<close>

lemma decryptDataPacket_ReadMessage [simp]:
  "decryptDataPacket (x\<lparr>ReadMessage := f\<rparr>) k p = decryptDataPacket x k p"
  by (auto simp: decryptDataPacket_def split: sum.splits)

lemma decryptStreamWithSessionKey_ReadMessage [simp]:
  "decryptStreamWithSessionKey (x\<lparr>ReadMessage := f\<rparr>) k s = decryptStreamWithSessionKey x k s"
  by (induction s) (auto split: packet.splits)

lemma sessionKeyCandidates_ReadMessage [simp]:
  "sessionKeyCandidates (x\<lparr>ReadMessage := f\<rparr>) ks r e = sessionKeyCandidates x ks r e"
  by (induction ks arbitrary: r e) (auto split: prod.splits sum.splits)

lemma sessionParseConfig_ReadMessage [simp]:
  "sessionParseConfig (x\<lparr>ReadMessage := f\<rparr>) dh = sessionParseConfig x dh"
  by (simp add: sessionParseConfig_def Let_def)

lemma session_parse_ignores_left_prompt:
  "decryptStreamWithSessionAndParse
     (x\<lparr>ReadMessage := (\<lambda>r es p c. (fst (ReadMessage x r es p c), left r es p c))\<rparr>) dh s =
   decryptStreamWithSessionAndParse x dh s"
  by (auto simp: decryptStreamWithSessionAndParse_def split: prod.splits option.splits)

lemma decryptDataPacket_verifying [simp]:
  "decryptDataPacket (x\<lparr>verifyingDetachedReader := v\<rparr>) k p = decryptDataPacket x k p"
  by (auto simp: decryptDataPacket_def split: sum.splits)

lemma decryptStreamWithSessionKey_verifying [simp]:
  "decryptStreamWithSessionKey (x\<lparr>verifyingDetachedReader := v\<rparr>) k s =
   decryptStreamWithSessionKey x k s"
  by (induction s) (auto split: packet.splits)

lemma sessionKeyCandidates_verifying [simp]:
  "sessionKeyCandidates (x\<lparr>verifyingDetachedReader := v\<rparr>) ks r e = sessionKeyCandidates x ks r e"
  by (induction ks arbitrary: r e) (auto split: prod.splits sum.splits)

lemma sessionParseConfig_verifying [simp]:
  "sessionParseConfig (x\<lparr>verifyingDetachedReader := v\<rparr>) dh = sessionParseConfig x dh"
  by (simp add: sessionParseConfig_def Let_def)

lemma session_parse_verifying [simp]:
  "decryptStreamWithSessionAndParse (x\<lparr>verifyingDetachedReader := v\<rparr>) dh s =
   decryptStreamWithSessionAndParse x dh s"
  by (auto simp: decryptStreamWithSessionAndParse_def split: prod.splits option.splits)

lemma decryptBothMessages_verifying [simp]:
  "decryptBothMessages (x\<lparr>verifyingDetachedReader := v\<rparr>) dh d s = decryptBothMessages x dh d s"
  by (auto simp: decryptBothMessages_def Let_def split: sum.splits)

lemma decryptBothMessages_session:
  assumes "SessionKeys dh \<noteq> []"
  shows "decryptBothMessages x dh d s = Inr (mdData, sg) \<longleftrightarrow>
    (\<exists>t t' mdSig. decryptStreamWithSessionAndParse x dh d = (Some mdData, t, None) \<and>
        decryptStreamWithSessionAndParse x dh s = (Some mdSig, t', None) \<and> sg = UnverifiedBody mdSig)"
  using assms by (auto simp: decryptBothMessages_def split: prod.splits option.splits)

lemma decryptBothMessages_password:
  assumes "SessionKeys dh = []"
  shows "decryptBothMessages x dh d s = Inr (mdData, sg) \<longleftrightarrow>
    (\<exists>mdSig. fst (ReadMessage x d (detachedEntries dh) (createPasswordPrompt (Password dh))
                  (detachedConfig dh)) = Inr mdData \<and>
        fst (ReadMessage x s (detachedEntries dh) (createPasswordPrompt (Password dh))
                  ((detachedConfig dh)\<lparr>CheckPacketSequence := Some False\<rparr>)) = Inr mdSig \<and>
        sg = UnverifiedBody mdSig)"
  using assms by (auto simp: decryptBothMessages_def Let_def split: sum.splits)

lemma decryptBothMessages_ignores_left_prompt:
  "decryptBothMessages
     (x\<lparr>ReadMessage := (\<lambda>r es p c. (fst (ReadMessage x r es p c), left r es p c))\<rparr>) dh d s =
   decryptBothMessages x dh d s"
  by (auto simp: decryptBothMessages_def session_parse_ignores_left_prompt Let_def split: sum.splits)

text \<open>
  In detached verification with session keys, the data stream and the signature stream
  are each decrypted by their own run of \<^verbatim>\<open>decryptStreamWithSessionAndParse\<close> over the
  handle's candidate list, and both runs must succeed. Otherwise each stream is read by
  \<^verbatim>\<open>ReadMessage\<close> with the decryption key ring and a prompt of its own, newly made from
  the password (so not yet called); what a call leaves of its prompt is never used again.
\<close>

lemma detached_decrypts_both_streams:
  "(SessionKeys dh \<noteq> [] \<longrightarrow>
      (\<forall>mdData sg. decryptBothMessages x dh encryptedData encryptedSignature = Inr (mdData, sg) \<longleftrightarrow>
         (\<exists>t t' mdSig.
            decryptStreamWithSessionAndParse x dh encryptedData = (Some mdData, t, None) \<and>
            decryptStreamWithSessionAndParse x dh encryptedSignature = (Some mdSig, t', None) \<and>
            sg = UnverifiedBody mdSig))) \<and>
   (SessionKeys dh = [] \<longrightarrow>
      (\<forall>mdData sg. decryptBothMessages x dh encryptedData encryptedSignature = Inr (mdData, sg) \<longleftrightarrow>
         (\<exists>mdSig.
            fst (ReadMessage x encryptedData (detachedEntries dh)
                   (createPasswordPrompt (Password dh)) (detachedConfig dh)) = Inr mdData \<and>
            fst (ReadMessage x encryptedSignature (detachedEntries dh)
                   (createPasswordPrompt (Password dh))
                   ((detachedConfig dh)\<lparr>CheckPacketSequence := Some False\<rparr>)) = Inr mdSig \<and>
            sg = UnverifiedBody mdSig)) \<and>
      (\<forall>pw. Password dh = Some pw \<longrightarrow>
         createPasswordPrompt (Password dh) = Some \<lparr>password = pw, firstTimeCalled = True\<rparr>)) \<and>
   (\<forall>left. decryptBothMessages
        (x\<lparr>ReadMessage := (\<lambda>r es p c. (fst (ReadMessage x r es p c), left r es p c))\<rparr>)
        dh encryptedData encryptedSignature =
      decryptBothMessages x dh encryptedData encryptedSignature)"
proof (intro conjI impI allI)
  fix mdData sg
  assume "SessionKeys dh \<noteq> []"
  then show "decryptBothMessages x dh encryptedData encryptedSignature = Inr (mdData, sg) \<longleftrightarrow>
         (\<exists>t t' mdSig.
            decryptStreamWithSessionAndParse x dh encryptedData = (Some mdData, t, None) \<and>
            decryptStreamWithSessionAndParse x dh encryptedSignature = (Some mdSig, t', None) \<and>
            sg = UnverifiedBody mdSig)"
    by (rule decryptBothMessages_session)
next
  fix mdData sg
  assume "SessionKeys dh = []"
  then show "decryptBothMessages x dh encryptedData encryptedSignature = Inr (mdData, sg) \<longleftrightarrow>
         (\<exists>mdSig.
            fst (ReadMessage x encryptedData (detachedEntries dh)
                   (createPasswordPrompt (Password dh)) (detachedConfig dh)) = Inr mdData \<and>
            fst (ReadMessage x encryptedSignature (detachedEntries dh)
                   (createPasswordPrompt (Password dh))
                   ((detachedConfig dh)\<lparr>CheckPacketSequence := Some False\<rparr>)) = Inr mdSig \<and>
            sg = UnverifiedBody mdSig)"
    by (rule decryptBothMessages_password)
next
  fix pw
  assume "Password dh = Some pw"
  then show "createPasswordPrompt (Password dh) = Some \<lparr>password = pw, firstTimeCalled = True\<rparr>"
    by (simp add: createPasswordPrompt_def)
next
  fix left
  show "decryptBothMessages
        (x\<lparr>ReadMessage := (\<lambda>r es p c. (fst (ReadMessage x r es p c), left r es p c))\<rparr>)
        dh encryptedData encryptedSignature =
      decryptBothMessages x dh encryptedData encryptedSignature"
    by (rule decryptBothMessages_ignores_left_prompt)
qed

lemma detached_decrypts_both_streams_sample:
  "SessionKeys (passwordHandle ''secret'') = [] \<and>
   decryptBothMessages sample (passwordHandle ''secret'') secretData secretSignature =
     Inr (sampleDetails ''Hello World!'', BodyReader ''signature'') \<and>
   SessionKeys (sessionHandle [goodKey]) \<noteq> [] \<and>
   decryptBothMessages sample (sessionHandle [goodKey]) [helloPacket]
       [SymmetricallyEncrypted ''Ksignature''] =
     Inr ((sampleDetails ''Hello World!'')
            \<lparr>MessageDetails.SessionKey := Some ''K'',
             UnverifiedBody := checkReader [OtherPacket 11 ''Hello World!''] (BodyReader ''Hello World!'')\<rparr>,
          checkReader [OtherPacket 11 ''signature''] (BodyReader ''signature''))"
proof -
  let ?pw = "passwordHandle ''secret''"
  let ?sk = "sessionHandle [goodKey]"
  have none: "SessionKeys ?pw = []"
    by (simp add: passwordHandle_def sampleDefaultHandle_def)
  have some: "SessionKeys ?sk \<noteq> []"
    by (simp add: sessionHandle_def)
  have d: "fst (ReadMessage sample secretData (detachedEntries ?pw)
                 (createPasswordPrompt (Password ?pw)) (detachedConfig ?pw)) =
           Inr (sampleDetails ''Hello World!'')"
    by (simp add: sample_def sampleReadMessage_def secretData_def helloPacket_def
        passwordHandle_def sampleDefaultHandle_def createPasswordPrompt_def sampleUnlock_def
        promptCall_def)
  have s: "fst (ReadMessage sample secretSignature (detachedEntries ?pw)
                 (createPasswordPrompt (Password ?pw))
                 ((detachedConfig ?pw)\<lparr>CheckPacketSequence := Some False\<rparr>)) =
           Inr (sampleDetails ''signature'')"
    by (simp add: sample_def sampleReadMessage_def secretSignature_def
        passwordHandle_def sampleDefaultHandle_def createPasswordPrompt_def sampleUnlock_def
        promptCall_def)
  have b: "UnverifiedBody (sampleDetails ''signature'') = BodyReader ''signature''"
    by (simp add: sampleDetails_def)
  note iff1 = detached_decrypts_both_streams [of ?pw sample secretData secretSignature,
      THEN conjunct2, THEN conjunct1, THEN mp, OF none, THEN conjunct1, THEN spec, THEN spec,
      THEN iffD2]
  have one: "decryptBothMessages sample ?pw secretData secretSignature =
     Inr (sampleDetails ''Hello World!'', BodyReader ''signature'')"
    by (rule iff1, rule exI [of _ "sampleDetails ''signature''"], intro conjI, rule d, rule s,
        rule b [symmetric])
  have pd: "decryptStreamWithSessionAndParse sample ?sk [helloPacket] =
     (Some ((sampleDetails ''Hello World!'')
        \<lparr>MessageDetails.SessionKey := Some ''K'',
         UnverifiedBody := checkReader [OtherPacket 11 ''Hello World!''] (BodyReader ''Hello World!'')\<rparr>),
      1700000000, None)"
    by (simp add: decryptStreamWithSessionAndParse_def sessionHandle_def sampleDefaultHandle_def
        helloPacket_def decryptDataPacket_def goodKey_def sample_def sampleGetCipherFunc_def
        sampleDecrypt_def sampleReadMessage_def sessionParseConfig_def sampleDetails_def
        NewConstantClock_def Let_def)
  have ps: "decryptStreamWithSessionAndParse sample ?sk [SymmetricallyEncrypted ''Ksignature''] =
     (Some ((sampleDetails ''signature'')
        \<lparr>MessageDetails.SessionKey := Some ''K'',
         UnverifiedBody := checkReader [OtherPacket 11 ''signature''] (BodyReader ''signature'')\<rparr>),
      1700000000, None)"
    by (simp add: decryptStreamWithSessionAndParse_def sessionHandle_def sampleDefaultHandle_def
        decryptDataPacket_def goodKey_def sample_def sampleGetCipherFunc_def
        sampleDecrypt_def sampleReadMessage_def sessionParseConfig_def sampleDetails_def
        NewConstantClock_def Let_def)
  have ub: "UnverifiedBody ((sampleDetails ''signature'')
        \<lparr>MessageDetails.SessionKey := Some ''K'',
         UnverifiedBody := checkReader [OtherPacket 11 ''signature''] (BodyReader ''signature'')\<rparr>) =
      checkReader [OtherPacket 11 ''signature''] (BodyReader ''signature'')"
    by simp
  note iff2 = detached_decrypts_both_streams [of ?sk sample "[helloPacket]"
      "[SymmetricallyEncrypted ''Ksignature'']",
      THEN conjunct1, THEN mp, OF some, THEN spec, THEN spec, THEN iffD2]
  have two: "decryptBothMessages sample ?sk [helloPacket] [SymmetricallyEncrypted ''Ksignature''] =
     Inr ((sampleDetails ''Hello World!'')
            \<lparr>MessageDetails.SessionKey := Some ''K'',
             UnverifiedBody := checkReader [OtherPacket 11 ''Hello World!''] (BodyReader ''Hello World!'')\<rparr>,
          checkReader [OtherPacket 11 ''signature''] (BodyReader ''signature''))"
    by (rule iff2, intro exI conjI, rule pd, rule ps, rule ub [symmetric])
  from none one some two show ?thesis by (intro conjI)
qed

text \<open>
  Each run hands its candidates one forward-only reader. When the first candidate fails
  on the only data packet of a stream, the later candidates find the reader at its end:
  the run fails whatever they are, and with it the detached operation.
\<close>

lemma candidates_at_end_of_stream:
  "fst (sessionKeyCandidates x ks [] e) = None"
  by (induction ks arbitrary: e) simp_all

lemma first_candidate_failure_is_final:
  assumes "SessionKeys dh = k # ks" and "list_all isKeyPacket keyPackets"
      and "p = SymmetricallyEncrypted c \<or> p = AEADEncrypted c"
      and "decryptDataPacket x k p = Inl e"
  shows "\<exists>lastErr. decryptStreamWithSessionAndParse x dh (keyPackets @ [p]) =
           (None, 0, Some (ErrWrap lastErr ''gopenpgp: unable to decrypt message with session key''))"
proof -
  from decryptStreamWithSessionKey_data_packet [OF assms(2,3), of x k "[]"] assms(4)
  have att: "decryptStreamWithSessionKey x k (keyPackets @ [p]) = (Inl e, [])"
    by simp
  have ne: "SessionKeys dh \<noteq> []"
    using assms(1) by simp
  have "fst (sessionKeyCandidates x (SessionKeys dh) (keyPackets @ [p]) None) = None"
    using assms(1) att by (simp add: candidates_at_end_of_stream)
  from no_candidate_succeeds [OF ne this] show ?thesis by blast
qed

lemma detached_first_candidate_failure_is_final:
  assumes "SessionKeys dh = k # ks" and "list_all isKeyPacket keyPackets"
      and "p = SymmetricallyEncrypted c \<or> p = AEADEncrypted c"
      and "decryptDataPacket x k p = Inl e"
  shows "\<exists>failure. decryptBothMessages x dh encryptedData (keyPackets @ [p]) = Inl failure"
    and "\<exists>failure. decryptBothMessages x dh (keyPackets @ [p]) encryptedSignature = Inl failure"
proof -
  from first_candidate_failure_is_final [OF assms] obtain lastErr where
    f: "decryptStreamWithSessionAndParse x dh (keyPackets @ [p]) =
           (None, 0, Some (ErrWrap lastErr ''gopenpgp: unable to decrypt message with session key''))"
    by blast
  show "\<exists>failure. decryptBothMessages x dh encryptedData (keyPackets @ [p]) = Inl failure"
    using assms(1) f by (auto simp: decryptBothMessages_def split: prod.splits option.splits)
  show "\<exists>failure. decryptBothMessages x dh (keyPackets @ [p]) encryptedSignature = Inl failure"
    using assms(1) f by (auto simp: decryptBothMessages_def split: prod.splits option.splits)
qed

lemma sample_signature_key_alone:
  "decryptStreamWithSessionAndParse sample (sessionHandle [wrongKey]) [otherSignature] =
     (Some signatureDetails, 1700000000, None)"
  by (simp add: decryptStreamWithSessionAndParse_def sessionHandle_def sampleDefaultHandle_def
      otherSignature_def decryptDataPacket_def wrongKey_def sample_def sampleGetCipherFunc_def
      sampleDecrypt_def sampleReadMessage_def sessionParseConfig_def sampleDetails_def
      signatureDetails_def NewConstantClock_def Let_def)

text \<open>
  Claim C4 says that with session keys both streams are decrypted independently with the
  same full candidate list, so that each stream may be unlocked by a different candidate.
  Both runs do start at the head of the same list, but within a run only the first
  candidate sees the stream's data packet. Here the data stream opens with \<open>goodKey\<close>
  alone and the signature stream with \<open>wrongKey\<close> alone; with both keys in the list, in
  either order, the stream whose key stands second is not decrypted and the operation
  fails. The half of the claim about the password prompts holds (lemma
  \<open>detached_decrypts_both_streams\<close>).
\<close>

theorem streams_under_different_candidates_fail:
  "decryptStreamWithSessionAndParse sample (sessionHandle [goodKey]) [helloPacket] =
     (Some helloDetails, 1700000000, None) \<and>
   decryptStreamWithSessionAndParse sample (sessionHandle [wrongKey]) [otherSignature] =
     (Some signatureDetails, 1700000000, None) \<and>
   decryptBothMessages sample (sessionHandle [goodKey, wrongKey]) [helloPacket] [otherSignature] =
     Inl (ErrWrap
            (ErrWrap (ErrWrap EOF ''gopenpgp: unable to read symmetric packet'')
               ''gopenpgp: unable to decrypt message with session key'')
            ''gopenpgp: error in reading detached signature message'') \<and>
   decryptBothMessages sample (sessionHandle [wrongKey, goodKey]) [helloPacket] [otherSignature] =
     Inl (ErrWrap
            (ErrWrap (ErrWrap EOF ''gopenpgp: unable to read symmetric packet'')
               ''gopenpgp: unable to decrypt message with session key'')
            ''gopenpgp: error in reading data message'')"
  by (simp add: sample_good_key_alone sample_signature_key_alone)
     (simp add: decryptBothMessages_def decryptStreamWithSessionAndParse_def sessionHandle_def
      sampleDefaultHandle_def helloPacket_def otherSignature_def decryptDataPacket_def
      goodKey_def wrongKey_def sample_def sampleGetCipherFunc_def sampleDecrypt_def
      sampleReadMessage_def sessionParseConfig_def sampleDetails_def NewConstantClock_def
      errors_Wrap_def Let_def)

lemma decryptBothMessages_data_only:
  assumes "decryptBothMessages x dh d s = Inr (md, sg)"
      and "decryptBothMessages x dh d s' = Inr (md', sg')"
  shows "md' = md"
proof (cases "SessionKeys dh = []")
  case True
  from assms show ?thesis
    unfolding decryptBothMessages_password [OF True] by auto
next
  case False
  from assms show ?thesis
    unfolding decryptBothMessages_session [OF False] by auto
qed

text \<open>
  Claim C8. The literal metadata of the reader that detached verification returns is that
  of the message details of the data stream. It is the same whatever signature stream is
  given and whatever details the verifying reader starts from.
\<close>

theorem detached_metadata_from_data_stream:
  assumes "decryptStreamAndVerifyDetached x dh encryptedData encryptedSignature = Inr r"
  shows "(\<exists>mdData sg.
            decryptBothMessages x dh encryptedData encryptedSignature = Inr (mdData, sg) \<and>
            LiteralData (details r) = LiteralData mdData \<and>
            (SessionKeys dh \<noteq> [] \<longrightarrow>
               fst (decryptStreamWithSessionAndParse x dh encryptedData) = Some mdData) \<and>
            (SessionKeys dh = [] \<longrightarrow>
               fst (ReadMessage x encryptedData (detachedEntries dh)
                      (createPasswordPrompt (Password dh)) (detachedConfig dh)) = Inr mdData)) \<and>
         (\<forall>v otherSignature r'.
            decryptStreamAndVerifyDetached (x\<lparr>verifyingDetachedReader := v\<rparr>) dh
                encryptedData otherSignature = Inr r'
            \<longrightarrow> LiteralData (details r') = LiteralData (details r))"
proof -
  from assms obtain mdData sg where
    both: "decryptBothMessages x dh encryptedData encryptedSignature = Inr (mdData, sg)" and
    lit: "LiteralData (details r) = LiteralData mdData"
    by (auto simp: decryptStreamAndVerifyDetached_def Let_def split: sum.splits prod.splits)
  have a: "SessionKeys dh \<noteq> [] \<longrightarrow>
             fst (decryptStreamWithSessionAndParse x dh encryptedData) = Some mdData"
    using both decryptBothMessages_session [of dh x encryptedData encryptedSignature mdData sg] by auto
  have b: "SessionKeys dh = [] \<longrightarrow>
             fst (ReadMessage x encryptedData (detachedEntries dh)
                    (createPasswordPrompt (Password dh)) (detachedConfig dh)) = Inr mdData"
    using both decryptBothMessages_password [of dh x encryptedData encryptedSignature mdData sg] by auto
  have c: "LiteralData (details r') = LiteralData (details r)"
    if "decryptStreamAndVerifyDetached (x\<lparr>verifyingDetachedReader := v\<rparr>) dh
          encryptedData otherSignature = Inr r'" for v otherSignature r'
  proof -
    from that obtain md' sg' where
      both': "decryptBothMessages x dh encryptedData otherSignature = Inr (md', sg')" and
      lit': "LiteralData (details r') = LiteralData md'"
      by (auto simp: decryptStreamAndVerifyDetached_def Let_def split: sum.splits prod.splits)
    from decryptBothMessages_data_only [OF both both'] lit lit' show ?thesis by simp
  qed
  from both lit a b c show ?thesis by blast
qed

lemma detachedSample_eval: "detachedSample sb = Inr detachedExpected"
  by (simp add: detachedSample_def detachedExpected_def helloBody_def
      decryptStreamAndVerifyDetached_def decryptBothMessages_def
      decryptStreamWithSessionAndParse_def sessionHandle_def sampleDefaultHandle_def
      helloPacket_def decryptDataPacket_def goodKey_def sample_def sampleGetCipherFunc_def
      sampleDecrypt_def sampleReadMessage_def sessionParseConfig_def sampleDetails_def
      sampleVerifyingDetachedReader_def NewConstantClock_def Let_def)

theorem detached_metadata_from_data_stream_witness:
  "detachedSample ''signature'' = Inr detachedExpected \<and>
   detachedSample ''another'' = Inr detachedExpected \<and>
   fst (decryptStreamWithSessionAndParse sample (sessionHandle [goodKey]) [helloPacket]) =
     Some helloDetails \<and>
   LiteralData (details detachedExpected) = LiteralData helloDetails \<and>
   LiteralData helloDetails =
     Some \<lparr>IsBinary = True, FileName = ''filename.txt'', LiteralData.Time = 12\<rparr>"
proof -
  have a: "decryptStreamAndVerifyDetached sample (sessionHandle [goodKey]) [helloPacket]
       [SymmetricallyEncrypted (''K'' @ ''signature'')] = Inr detachedExpected"
    using detachedSample_eval [of "''signature''"] by (simp only: detachedSample_def)
  have keys: "SessionKeys (sessionHandle [goodKey]) \<noteq> []"
    by (simp add: sessionHandle_def)
  have parsed: "fst (decryptStreamWithSessionAndParse sample (sessionHandle [goodKey]) [helloPacket]) =
      Some helloDetails"
    by (simp add: sample_good_key_alone)
  from detached_metadata_from_data_stream [OF a, THEN conjunct1] keys parsed
  have l: "LiteralData (details detachedExpected) = LiteralData helloDetails"
    by auto
  have h: "LiteralData helloDetails =
     Some \<lparr>IsBinary = True, FileName = ''filename.txt'', LiteralData.Time = 12\<rparr>"
    by (simp add: helloDetails_def sampleDetails_def)
  from detachedSample_eval [of "''signature''"] detachedSample_eval [of "''another''"] parsed l h
  show ?thesis by (intro conjI)
qed

section \<open>The builder\<close>

text \<open>
  Claim C5. After a successful \<^verbatim>\<open>New\<close> the returned handle is the draft the builder
  held, and the builder holds a fresh default handle made from its default clock: it is
  the builder \<^verbatim>\<open>newDecryptionHandleBuilder\<close> would return, so it is the same whatever had
  been configured before and the next request shares nothing with the one just built.
\<close>

theorem New_resets_builder:
  assumes "New x dpb = (Inr h, dpb')"
  shows "h = handle dpb \<and>
         handle dpb' = defaultDecryptionHandle x (defaultClock dpb) \<and>
         dpb' = newDecryptionHandleBuilder x (defaultClock dpb) \<and>
         (\<forall>other h2 other'. New x other = (Inr h2, other') \<and> defaultClock other = defaultClock dpb
            \<longrightarrow> other' = dpb')"
proof -
  have fresh: "b' = newDecryptionHandleBuilder x (defaultClock b) \<and> g = handle b"
    if "New x b = (Inr g, b')" for b g b'
    using that
    by (cases b) (auto simp: New_def newDecryptionHandleBuilder_def Let_def split: option.splits)
  from fresh [OF assms] show ?thesis
    by (auto simp: newDecryptionHandleBuilder_def dest: fresh)
qed

theorem New_resets_builder_witness:
  "New sample configuredBuilder =
     (Inr ((sampleDefaultHandle 5)\<lparr>Password := Some ''secret'', RetrieveSessionKey := True\<rparr>),
      newDecryptionHandleBuilder sample 1700000000) \<and>
   handle (snd (New sample configuredBuilder)) = sampleDefaultHandle 1700000000 \<and>
   Password (handle (snd (New sample configuredBuilder))) = None \<and>
   clock (handle (snd (New sample configuredBuilder))) = 1700000000"
proof -
  have n: "New sample configuredBuilder =
     (Inr ((sampleDefaultHandle 5)\<lparr>Password := Some ''secret'', RetrieveSessionKey := True\<rparr>),
      newDecryptionHandleBuilder sample 1700000000)"
    by (simp add: New_def configuredBuilder_def RetrieveSessionKey_setter_def VerifyTime_def
        Password_setter_def newDecryptionHandleBuilder_def sample_def sampleValidate_def
        sampleDefaultHandle_def NewConstantClock_def)
  have c: "defaultClock configuredBuilder = 1700000000"
    by (simp add: configuredBuilder_def RetrieveSessionKey_setter_def VerifyTime_def
        Password_setter_def newDecryptionHandleBuilder_def)
  from New_resets_builder [OF n]
  have h: "handle (newDecryptionHandleBuilder sample 1700000000) =
           defaultDecryptionHandle sample (defaultClock configuredBuilder)"
    by blast
  have d: "defaultDecryptionHandle sample 1700000000 = sampleDefaultHandle 1700000000"
    by (simp add: sample_def)
  have s: "snd (New sample configuredBuilder) = newDecryptionHandleBuilder sample 1700000000"
    by (simp add: n)
  from h c d s have "handle (snd (New sample configuredBuilder)) = sampleDefaultHandle 1700000000"
    by simp
  then show ?thesis using n by (simp add: sampleDefaultHandle_def)
qed

lemma New_after_clean_setter:
  "err dpb = None \<Longrightarrow> validate x (handle dpb) = None \<Longrightarrow> fst (New x dpb) = Inr (handle dpb)"
  by (simp add: New_def)

text \<open>
  Claim C9. \<^verbatim>\<open>DecryptionKey\<close> and \<^verbatim>\<open>VerifyKey\<close> store the outcome of their own key-ring
  call in the builder's error, success or failure, whatever error was stored before. So a
  later successful call clears an earlier error, and \<^verbatim>\<open>New\<close> then succeeds as soon as the
  draft validates.
\<close>

theorem key_setters_overwrite_error:
  "err (DecryptionKey x k (dpb\<lparr>err := e0\<rparr>)) = err (DecryptionKey x k dpb) \<and>
   err (VerifyKey x k (dpb\<lparr>err := e0\<rparr>)) = err (VerifyKey x k dpb) \<and>
   err (DecryptionKey x k dpb) =
     (case DecryptionKeyRing (handle dpb) of
        None \<Rightarrow> snd (NewKeyRing x k)
      | Some ring \<Rightarrow> snd (AddKey x ring k)) \<and>
   err (VerifyKey x k dpb) =
     (case VerifyKeyRing (handle dpb) of
        None \<Rightarrow> snd (NewKeyRing x k)
      | Some ring \<Rightarrow> snd (AddKey x ring k)) \<and>
   (\<forall>dpb'. (dpb' = DecryptionKey x k dpb \<or> dpb' = VerifyKey x k dpb) \<and>
           err dpb' = None \<and> validate x (handle dpb') = None
        \<longrightarrow> fst (New x dpb') = Inr (handle dpb'))"
  by (auto simp: DecryptionKey_def VerifyKey_def New_after_clean_setter
      split: option.splits prod.splits)

theorem key_setters_overwrite_error_witness:
  "err failedBuilder = Some (LibError ''invalid key'') \<and>
   fst (New sample failedBuilder) = Inl (LibError ''invalid key'') \<and>
   err (VerifyKey sample (Some 7) failedBuilder) = None \<and>
   validate sample (handle (VerifyKey sample (Some 7) failedBuilder)) = None \<and>
   fst (New sample (VerifyKey sample (Some 7) failedBuilder)) =
     Inr (handle (VerifyKey sample (Some 7) failedBuilder))"
proof -
  have f: "failedBuilder =
      \<lparr>handle = (sampleDefaultHandle 1700000000)\<lparr>DecryptionKeyRing := Some \<lparr>entities = []\<rparr>\<rparr>,
       defaultClock = 1700000000, err = Some (LibError ''invalid key'')\<rparr>"
    by (simp add: failedBuilder_def DecryptionKey_def newDecryptionHandleBuilder_def sample_def
        sampleNewKeyRing_def sampleDefaultHandle_def)
  have e: "err failedBuilder = Some (LibError ''invalid key'')"
    by (simp add: f)
  have n: "fst (New sample failedBuilder) = Inl (LibError ''invalid key'')"
    by (simp add: f New_def)
  have v: "VerifyKey sample (Some 7) failedBuilder =
      \<lparr>handle = (sampleDefaultHandle 1700000000)
          \<lparr>DecryptionKeyRing := Some \<lparr>entities = []\<rparr>, VerifyKeyRing := Some \<lparr>entities = [7]\<rparr>\<rparr>,
       defaultClock = 1700000000, err = None\<rparr>"
    by (simp add: f VerifyKey_def sample_def sampleNewKeyRing_def sampleDefaultHandle_def)
  have c: "err (VerifyKey sample (Some 7) failedBuilder) = None"
    by (simp add: v)
  have ok: "validate sample (handle (VerifyKey sample (Some 7) failedBuilder)) = None"
    unfolding v by (simp add: sample_def sampleValidate_def sampleDefaultHandle_def)
  from key_setters_overwrite_error [where x = sample and k = "Some 7" and dpb = failedBuilder] c ok
  have "fst (New sample (VerifyKey sample (Some 7) failedBuilder)) =
     Inr (handle (VerifyKey sample (Some 7) failedBuilder))"
    by blast
  with e n c ok show ?thesis by blast
qed

end
